theory Spec2Isabelle
  imports Complex_Main "HOL-Library.Sublist"
begin

section \<open>JavaScript values and built-ins used by ruler.ts\<close>

text \<open>
  A JavaScript string is represented by the bytes of its UTF-8 encoding (an Isabelle
  \<open>string\<close>), assumed well formed: \<open>encodeURIComponent\<close> and \<open>URLSearchParams\<close> both
  work on the UTF-8 bytes of their argument, and the phrases the module searches for are
  ASCII. Strings with a lone surrogate (on which \<open>encodeURIComponent\<close> raises URIError)
  have no representation here.
\<close>

text \<open>\<open>s.includes(sub)\<close>: \<open>sub\<close> occurs in \<open>s\<close> as a contiguous run.\<close>

fun String_includes :: "string \<Rightarrow> string \<Rightarrow> bool" where
  "String_includes [] sub = (sub = [])"
| "String_includes (c # cs) sub = (prefix sub (c # cs) \<or> String_includes cs sub)"

text \<open>\<open>m?.includes(sub)\<close> read as a condition: \<open>undefined\<close> is falsy.\<close>

definition optional_includes :: "string option \<Rightarrow> string \<Rightarrow> bool" where
  "optional_includes m sub = (case m of None \<Rightarrow> False | Some s \<Rightarrow> String_includes s sub)"

text \<open>The digit of a value below 16 (the only values it is applied to).\<close>

definition hex_digit :: "nat \<Rightarrow> char" where
  "hex_digit n = ''0123456789ABCDEF'' ! n"

definition is_alnum :: "char \<Rightarrow> bool" where
  "is_alnum c =
     (let n = (of_char c :: nat)
      in (48 \<le> n \<and> n \<le> 57) \<or> (65 \<le> n \<and> n \<le> 90) \<or> (97 \<le> n \<and> n \<le> 122))"

text \<open>One byte as \<open>%XX\<close>, upper-case hexadecimal.\<close>

definition percent_byte :: "char \<Rightarrow> string" where
  "percent_byte c = [CHR ''%'', hex_digit (of_char c div 16), hex_digit (of_char c mod 16)]"

text \<open>
  \<open>encodeURIComponent\<close> (ECMAScript): every byte of the UTF-8 encoding is escaped
  except the letters, the digits and \<open>- _ . ! ~ * ' ( )\<close>.
\<close>

definition uri_unreserved :: "char \<Rightarrow> bool" where
  "uri_unreserved c = (is_alnum c \<or> c \<in> set ''-_.!~*'()'')"

definition encodeURIComponent_byte :: "char \<Rightarrow> string" where
  "encodeURIComponent_byte c = (if uri_unreserved c then [c] else percent_byte c)"

definition encodeURIComponent :: "string \<Rightarrow> string" where
  "encodeURIComponent s = concat (map encodeURIComponent_byte s)"

text \<open>
  The serializer of \<open>application/x-www-form-urlencoded\<close> (WHATWG URL), which
  \<open>URLSearchParams.toString()\<close> applies to every name and value: a space becomes \<open>+\<close>,
  letters, digits and \<open>* - . _\<close> stay, every other byte is escaped.
\<close>

definition form_urlencode_byte :: "char \<Rightarrow> string" where
  "form_urlencode_byte c =
     (if c = CHR '' '' then ''+''
      else if is_alnum c \<or> c \<in> set ''*-._'' then [c]
      else percent_byte c)"

definition form_urlencode :: "string \<Rightarrow> string" where
  "form_urlencode s = concat (map form_urlencode_byte s)"

fun join :: "string \<Rightarrow> string list \<Rightarrow> string" where
  "join sep [] = []"
| "join sep [x] = x"
| "join sep (x # y # ys) = x @ sep @ join sep (y # ys)"

text \<open>
  A \<open>URLSearchParams\<close> object is its list of name-value pairs. \<open>set(name, value)\<close>
  overwrites the first pair of that name and removes the others, or appends a new pair.
\<close>

type_synonym URLSearchParams = "(string \<times> string) list"

fun URLSearchParams_set :: "string \<Rightarrow> string \<Rightarrow> URLSearchParams \<Rightarrow> URLSearchParams" where
  "URLSearchParams_set name v [] = [(name, v)]"
| "URLSearchParams_set name v ((k, w) # ps) =
     (if k = name then (name, v) # filter (\<lambda>p. fst p \<noteq> name) ps
      else (k, w) # URLSearchParams_set name v ps)"

definition serialize_pair :: "string \<times> string \<Rightarrow> string" where
  "serialize_pair p = form_urlencode (fst p) @ ''='' @ form_urlencode (snd p)"

definition URLSearchParams_toString :: "URLSearchParams \<Rightarrow> string" where
  "URLSearchParams_toString ps = join ''&'' (map serialize_pair ps)"

text \<open>\<open>Object.fromEntries\<close>: the pairs are stored in order, a later one overwriting.\<close>

definition Object_fromEntries :: "(string \<times> string) list \<Rightarrow> (string \<rightharpoonup> string)" where
  "Object_fromEntries ps = fold (\<lambda>(k, v) m. m(k \<mapsto> v)) ps Map.empty"

text \<open>The decimal digits of an integer, with its sign.\<close>

fun digits :: "nat \<Rightarrow> string" where
  "digits n = (if n < 10 then [hex_digit n] else digits (n div 10) @ [hex_digit (n mod 10)])"

declare digits.simps [simp del]

definition decimal :: "int \<Rightarrow> string" where
  "decimal n = (if n < 0 then CHR ''-'' # digits (nat (- n)) else digits (nat n))"

text \<open>
  A JavaScript number: the finite values (every finite double is a rational), and the
  three values \<open>Number.isFinite\<close> rejects.
\<close>

datatype js_number = Finite rat | NaN | PosInfinity | NegInfinity

text \<open>A number read as a condition: \<open>0\<close> and \<open>NaN\<close> are falsy.\<close>

definition truthy :: "js_number \<Rightarrow> bool" where
  "truthy x = (case x of Finite q \<Rightarrow> q \<noteq> 0 | NaN \<Rightarrow> False | PosInfinity \<Rightarrow> True
               | NegInfinity \<Rightarrow> True)"

text \<open>
  The safe integers: the integers of absolute value at most \<open>2^53 - 1\<close>
  (\<open>Number.MAX_SAFE_INTEGER\<close>), each of them a double, which \<open>String\<close> prints as their
  decimal digits.
\<close>

definition is_safe_integer :: "rat \<Rightarrow> bool" where
  "is_safe_integer q = (q = of_int \<lfloor>q\<rfloor> \<and> \<bar>\<lfloor>q\<rfloor>\<bar> \<le> 9007199254740991)"

datatype js_nullish = Undefined | Null

datatype js_primitive = Nullish js_nullish | JBoolean bool | JNumber js_number | JString string

text \<open>
  An Error object without \<open>status\<close> and \<open>data\<close> properties: \<open>new Error(message)\<close>, and
  the TypeError the runtime raises when a property of \<open>undefined\<close> or \<open>null\<close> is read.
\<close>

datatype js_error = Error string | TypeError

text \<open>How a call ends: an async function that returns fulfils its promise, one that
  throws rejects it.\<close>

datatype ('e, 'a) result = Threw 'e | Returned 'a


section \<open>The data of ruler.ts\<close>

text \<open>\<open>interface ErrorResponseMessage { message?: string; error?: string }\<close>; the record's
  extension holds whatever else the body of the error carries.\<close>

record ErrorResponseMessage =
  message :: "string option"
  error :: "string option"

text \<open>
  Modelled from the spec: \<open>FetchResponse<T>\<close> is declared in @grafana/runtime, outside
  the sources; the spec gives \<open>{status, data}\<close>. \<open>status\<close> is \<open>None\<close> when the property is
  missing or is not of type number; the record's extension holds the other properties
  (headers, url, config...).
\<close>

record 'd FetchResponse =
  status :: "js_number option"
  data :: 'd

text \<open>
  What a \<open>catch (error)\<close> can receive (\<open>unknown\<close>): a primitive value, an Error object,
  an object whose \<open>data\<close> is null, undefined or missing, or an object whose \<open>data\<close> is an
  object, which \<open>isResponseError\<close> casts to \<open>FetchResponse<ErrorResponseMessage>\<close>.
\<close>

datatype ('m, 'r) thrown =
    Primitive js_primitive
  | ErrorObject js_error
  | Object "(js_nullish, 'r) FetchResponse_scheme"
  | Response "('m ErrorResponseMessage_scheme, 'r) FetchResponse_scheme"

text \<open>
  Modelled from the spec: \<open>RulerDataSourceConfig\<close> is declared in
  app/types/unified-alerting, outside the sources; these are the three properties
  \<open>rulerUrlBuilder\<close> and \<open>fetchRulerRules\<close> read. \<open>apiVersion\<close> is the string the code compares
  with \<open>'config'\<close> and \<open>'legacy'\<close>; \<open>customRulerEnabled\<close> is its truthiness.
\<close>

record RulerDataSourceConfig =
  dataSourceName :: string
  apiVersion :: string
  customRulerEnabled :: bool

text \<open>
  What ruler.ts uses and this theory does not define, taken as parameters: its imports
  that are outside the sources, \<open>getDatasourceAPIId\<close> and \<open>GRAFANA_RULES_SOURCE_NAME\<close> of
  ../utils/datasource and \<open>RULER_NOT_SUPPORTED_MSG\<close> of ../utils/constants; and
  \<open>Number_toString\<close>, what \<open>String\<close> prints for a finite number that is not a safe
  integer (ECMAScript prints the shortest digits that read back as the same double, in
  exponent notation from \<open>10^21\<close>).
\<close>

record externals =
  getDatasourceAPIId :: "string \<Rightarrow> string"
  GRAFANA_RULES_SOURCE_NAME :: string
  RULER_NOT_SUPPORTED_MSG :: string
  Number_toString :: "js_number \<Rightarrow> string"

text \<open>\<open>String(x)\<close> for a number \<open>x\<close>.\<close>

definition String_number :: "externals \<Rightarrow> js_number \<Rightarrow> string" where
  "String_number ext x =
     (case x of
        Finite q \<Rightarrow> if is_safe_integer q then decimal \<lfloor>q\<rfloor> else Number_toString ext x
      | NaN \<Rightarrow> ''NaN''
      | PosInfinity \<Rightarrow> ''Infinity''
      | NegInfinity \<Rightarrow> ''-Infinity'')"

text \<open>\<open>interface FetchRulerRulesFilter { dashboardUID: string; panelId?: number }\<close>\<close>

record FetchRulerRulesFilter =
  dashboardUID :: string
  panelId :: "js_number option"

text \<open>
  The options object handed to \<open>getBackendSrv().fetch\<close>. \<open>req_method\<close>, \<open>req_url\<close>,
  \<open>req_data\<close> and \<open>req_params\<close> are its \<open>method\<close>, \<open>url\<close>, \<open>data\<close> and \<open>params\<close>.
\<close>

record 'p BackendSrvRequest =
  req_method :: "string option"
  req_url :: string
  req_data :: "'p option"
  req_params :: "(string \<rightharpoonup> string) option"
  showErrorAlert :: bool
  showSuccessAlert :: bool


section \<open>rulerUrlBuilder\<close>

text \<open>
  The closure \<open>rulerUrlBuilder\<close> returns: \<open>basePath\<close> is constant, \<open>rulerSearchParams\<close> is
  the one \<open>URLSearchParams\<close> object its three methods share, and \<open>rules\<close> writes to it.
  A method takes the instance and, when it writes, returns the instance after the call.
\<close>

record builder =
  basePath :: string
  rulerSearchParams :: URLSearchParams

definition rulerUrlBuilder :: "externals \<Rightarrow> RulerDataSourceConfig \<Rightarrow> builder" where
  "rulerUrlBuilder ext rulerConfig =
     (let grafanaPath = ''/api/ruler/'' @ getDatasourceAPIId ext (dataSourceName rulerConfig);
          rulerPath = (if apiVersion rulerConfig = ''config'' then ''/config/v1/rules''
                       else ''/api/v1/rules'');
          sp0 = [];
          sp1 = (if customRulerEnabled rulerConfig
                 then URLSearchParams_set ''source'' ''ruler'' sp0 else sp0);
          sp2 = (if apiVersion rulerConfig = ''legacy''
                 then URLSearchParams_set ''noProxy'' ''true'' sp1 else sp1)
      in \<lparr>basePath = grafanaPath @ rulerPath, rulerSearchParams = sp2\<rparr>)"

record rules_result =
  url :: string
  params :: "string \<rightharpoonup> string"

definition rules ::
  "externals \<Rightarrow> builder \<Rightarrow> FetchRulerRulesFilter option \<Rightarrow> rules_result \<times> builder" where
  "rules ext b filter' =
     (let sp =
        (case filter' of
           None \<Rightarrow> rulerSearchParams b
         | Some f \<Rightarrow>
             if dashboardUID f \<noteq> [] then
               (let sp1 = URLSearchParams_set ''dashboard_uid'' (dashboardUID f)
                            (rulerSearchParams b)
                in case panelId f of
                     None \<Rightarrow> sp1
                   | Some n \<Rightarrow>
                       if truthy n
                       then URLSearchParams_set ''panel_id'' (String_number ext n) sp1
                       else sp1)
             else rulerSearchParams b)
      in (\<lparr>url = basePath b, params = Object_fromEntries sp\<rparr>, b\<lparr>rulerSearchParams := sp\<rparr>))"

definition namespace :: "builder \<Rightarrow> string \<Rightarrow> string" where
  "namespace b ns =
     basePath b @ ''/'' @ encodeURIComponent ns @ ''?''
       @ URLSearchParams_toString (rulerSearchParams b)"

definition namespaceGroup :: "builder \<Rightarrow> string \<Rightarrow> string \<Rightarrow> string" where
  "namespaceGroup b ns group' =
     basePath b @ ''/'' @ encodeURIComponent ns @ ''/'' @ encodeURIComponent group' @ ''?''
       @ URLSearchParams_toString (rulerSearchParams b)"

text \<open>A client of one instance: any sequence of calls of its methods, and what each
  call returned.\<close>

datatype builder_call =
    Rules "FetchRulerRulesFilter option"
  | Namespace string
  | NamespaceGroup string string

datatype builder_output = RulesOutput rules_result | UrlOutput string

fun invoke :: "externals \<Rightarrow> builder \<Rightarrow> builder_call \<Rightarrow> builder_output \<times> builder" where
  "invoke ext b (Rules filter') = (let (r, b') = rules ext b filter' in (RulesOutput r, b'))"
| "invoke ext b (Namespace ns) = (UrlOutput (namespace b ns), b)"
| "invoke ext b (NamespaceGroup ns group') = (UrlOutput (namespaceGroup b ns group'), b)"

fun run :: "externals \<Rightarrow> builder \<Rightarrow> builder_call list \<Rightarrow> builder_output list" where
  "run ext b [] = []"
| "run ext b (c # cs) = (let (out, b') = invoke ext b c in out # run ext b' cs)"

text \<open>The instance after a sequence of calls.\<close>

fun after :: "externals \<Rightarrow> builder \<Rightarrow> builder_call list \<Rightarrow> builder" where
  "after ext b [] = b"
| "after ext b (c # cs) = after ext (snd (invoke ext b c)) cs"

text \<open>
  What holds of every instance a client can reach: the base path has no \<open>?\<close>, and no
  name occurs twice in \<open>rulerSearchParams\<close> (every pair is written by \<open>set\<close>).
\<close>

definition invar :: "builder \<Rightarrow> bool" where
  "invar b = (CHR ''?'' \<notin> set (basePath b) \<and> distinct (map fst (rulerSearchParams b)))"

text \<open>The calls that reach \<open>rulerSearchParams.set('panel_id', ...)\<close>: \<open>rules\<close> with a
  filter whose \<open>dashboardUID\<close> and \<open>panelId\<close> are both truthy.\<close>

fun sets_panel_id :: "builder_call \<Rightarrow> bool" where
  "sets_panel_id (Rules (Some f)) =
     (dashboardUID f \<noteq> [] \<and> (case panelId f of None \<Rightarrow> False | Some n \<Rightarrow> truthy n))"
| "sets_panel_id c = False"


section \<open>The requests\<close>

text \<open>
  The transport \<open>getBackendSrv().fetch\<close>, awaited through \<open>lastValueFrom\<close>, is a
  parameter \<open>fetch\<close>: it resolves with a response or rejects with any value. Every
  operation returns how it ended together with the requests it handed to the transport,
  in order. The body of a response is a value of the type the call declares:
  \<open>Record<string, RulerRuleGroupDTO[]>\<close> is a plain object, given by the map from its own
  keys to lists of groups, \<open>RulerRuleGroupDTO | null\<close> an optional group, and a group is
  opaque.
\<close>

definition Number_isFinite :: "js_number option \<Rightarrow> bool" where
  "Number_isFinite v = (case v of Some (Finite x) \<Rightarrow> True | _ \<Rightarrow> False)"

text \<open>
  \<open>isResponseError\<close> is a TypeScript type predicate: the model returns the value at the
  type it is narrowed to, \<open>None\<close> standing for \<open>false\<close>. Reading \<open>.data\<close> of \<open>undefined\<close> or
  \<open>null\<close> raises a TypeError; on a boolean, a number or a string both properties are
  \<open>undefined\<close>.
\<close>

fun isResponseError ::
  "('m, 'r) thrown \<Rightarrow>
    (('m, 'r) thrown, ('m ErrorResponseMessage_scheme, 'r) FetchResponse_scheme option) result"
where
  "isResponseError (Primitive (Nullish n)) = Threw (ErrorObject TypeError)"
| "isResponseError (Primitive p) = Returned None"
| "isResponseError (ErrorObject e) = Returned None"
| "isResponseError (Object e) = Returned None"
| "isResponseError (Response e) =
     (let hasErrorMessage = True;
          hasErrorCode = Number_isFinite (status e)
      in Returned (if hasErrorCode \<and> hasErrorMessage then Some e else None))"

definition isRulerNotSupported ::
  "('m ErrorResponseMessage_scheme, 'r) FetchResponse_scheme \<Rightarrow> bool" where
  "isRulerNotSupported e =
     (status e = Some (Finite 404) \<or>
      (status e = Some (Finite 500) \<and>
       optional_includes (message (data e))
         ''unexpected content type from upstream. expected YAML, got text/html''))"

definition isCortexErrorResponse ::
  "('m ErrorResponseMessage_scheme, 'r) FetchResponse_scheme \<Rightarrow> bool" where
  "isCortexErrorResponse e =
     (status e = Some (Finite 404) \<and>
      (optional_includes (message (data e)) ''group does not exist'' \<or>
       optional_includes (message (data e)) ''no rule groups found''))"

text \<open>The \<open>catch\<close> block of \<open>rulerGetRequest\<close>.\<close>

definition rulerGetRequest_catch ::
  "externals \<Rightarrow> 'a \<Rightarrow> ('m, 'r) thrown \<Rightarrow> (('m, 'r) thrown, 'a) result" where
  "rulerGetRequest_catch ext empty' err =
     (case isResponseError err of
        Threw t \<Rightarrow> Threw t
      | Returned None \<Rightarrow> Threw err
      | Returned (Some e) \<Rightarrow>
          if isCortexErrorResponse e then Returned empty'
          else if isRulerNotSupported e then
            Threw (Response (e\<lparr>data := (data e)\<lparr>message := Some (RULER_NOT_SUPPORTED_MSG ext)\<rparr>\<rparr>))
          else Threw err)"

definition rulerGetRequest ::
  "externals \<Rightarrow> ('p BackendSrvRequest \<Rightarrow> (('m, 'r) thrown, 'a FetchResponse) result) \<Rightarrow>
    string \<Rightarrow> 'a \<Rightarrow> (string \<rightharpoonup> string) option \<Rightarrow>
    (('m, 'r) thrown, 'a) result \<times> 'p BackendSrvRequest list" where
  "rulerGetRequest ext fetch url' empty' params' =
     (let req = \<lparr>req_method = None, req_url = url', req_data = None, req_params = params',
                 showErrorAlert = False, showSuccessAlert = False\<rparr>
      in (case fetch req of
            Returned response \<Rightarrow> Returned (data response)
          | Threw err \<Rightarrow> rulerGetRequest_catch ext empty' err,
          [req]))"

text \<open>An awaited transport call outside any \<open>try\<close>: the rejection is the operation's.\<close>

definition await_void ::
  "('p BackendSrvRequest \<Rightarrow> ('e, 'a FetchResponse) result) \<Rightarrow> 'p BackendSrvRequest \<Rightarrow>
    ('e, unit) result \<times> 'p BackendSrvRequest list" where
  "await_void fetch req =
     (case fetch req of Returned response \<Rightarrow> Returned () | Threw err \<Rightarrow> Threw err, [req])"

definition setRulerRuleGroup ::
  "externals \<Rightarrow> ('p BackendSrvRequest \<Rightarrow> ('e, 'a FetchResponse) result) \<Rightarrow>
    RulerDataSourceConfig \<Rightarrow> string \<Rightarrow> 'p \<Rightarrow> ('e, unit) result \<times> 'p BackendSrvRequest list" where
  "setRulerRuleGroup ext fetch rulerConfig ns group' =
     await_void fetch
       \<lparr>req_method = Some ''POST'', req_url = namespace (rulerUrlBuilder ext rulerConfig) ns,
        req_data = Some group', req_params = None,
        showErrorAlert = False, showSuccessAlert = False\<rparr>"

definition fetchRulerRules ::
  "externals \<Rightarrow>
    ('p BackendSrvRequest \<Rightarrow> (('m, 'r) thrown, (string \<rightharpoonup> 'g list) FetchResponse) result) \<Rightarrow>
    RulerDataSourceConfig \<Rightarrow> FetchRulerRulesFilter option \<Rightarrow>
    (('m, 'r) thrown, string \<rightharpoonup> 'g list) result \<times> 'p BackendSrvRequest list" where
  "fetchRulerRules ext fetch rulerConfig filter' =
     (if (case filter' of None \<Rightarrow> False | Some f \<Rightarrow> dashboardUID f \<noteq> []) \<and>
         dataSourceName rulerConfig \<noteq> GRAFANA_RULES_SOURCE_NAME ext
      then (Threw (ErrorObject
              (Error ''Filtering by dashboard UID is not supported for cloud rules sources.'')),
            [])
      else (let (r, b) = rules ext (rulerUrlBuilder ext rulerConfig) filter'
            in rulerGetRequest ext fetch (url r) Map.empty (Some (params r))))"

text \<open>
  Reading \<open>obj[key]\<close> on a plain object (an object literal such as \<open>{}\<close>, or a decoded
  JSON body), whose prototype is \<open>Object.prototype\<close>: an own property gives its value;
  otherwise a name that \<open>Object.prototype\<close> defines gives the member inherited under that
  name (a function, or for \<open>__proto__\<close> the prototype itself: truthy in every case); any
  other name gives \<open>undefined\<close>, here \<open>None\<close>.
\<close>

definition Object_prototype_names :: "string list" where
  "Object_prototype_names =
     [''constructor'', ''hasOwnProperty'', ''isPrototypeOf'', ''propertyIsEnumerable'',
      ''toLocaleString'', ''toString'', ''valueOf'', ''__proto__'', ''__defineGetter__'',
      ''__defineSetter__'', ''__lookupGetter__'', ''__lookupSetter__'']"

datatype 'v js_read = Value 'v | Object_prototype_member string

definition Object_get :: "(string \<rightharpoonup> 'v) \<Rightarrow> string \<Rightarrow> 'v js_read option" where
  "Object_get obj key =
     (case obj key of
        Some v \<Rightarrow> Some (Value v)
      | None \<Rightarrow> if key \<in> set Object_prototype_names then Some (Object_prototype_member key) else None)"

text \<open>
  \<open>result[namespace] || []\<close>: an array and an inherited member are truthy and are
  returned; \<open>undefined\<close> gives the new empty array. \<open>result\<close> is the decoded body or the
  \<open>{}\<close> passed as \<open>empty\<close>, a plain object either way.
\<close>

definition fetchRulerRulesNamespace ::
  "externals \<Rightarrow>
    ('p BackendSrvRequest \<Rightarrow> (('m, 'r) thrown, (string \<rightharpoonup> 'g list) FetchResponse) result) \<Rightarrow>
    RulerDataSourceConfig \<Rightarrow> string \<Rightarrow>
    (('m, 'r) thrown, 'g list js_read) result \<times> 'p BackendSrvRequest list" where
  "fetchRulerRulesNamespace ext fetch rulerConfig ns =
     (case rulerGetRequest ext fetch (namespace (rulerUrlBuilder ext rulerConfig) ns)
             Map.empty None of
        (Threw t, reqs) \<Rightarrow> (Threw t, reqs)
      | (Returned result', reqs) \<Rightarrow>
          (Returned (case Object_get result' ns of None \<Rightarrow> Value [] | Some v \<Rightarrow> v), reqs))"

definition fetchRulerRulesGroup ::
  "externals \<Rightarrow>
    ('p BackendSrvRequest \<Rightarrow> (('m, 'r) thrown, 'g option FetchResponse) result) \<Rightarrow>
    string \<Rightarrow> string \<Rightarrow> string \<Rightarrow>
    (('m, 'r) thrown, 'g option) result \<times> 'p BackendSrvRequest list" where
  "fetchRulerRulesGroup ext fetch dsName ns group' =
     rulerGetRequest ext fetch
       (''/api/ruler/'' @ getDatasourceAPIId ext dsName @ ''/api/v1/rules/''
          @ encodeURIComponent ns @ ''/'' @ encodeURIComponent group')
       None None"

definition fetchRulerRulesGroupV2 ::
  "externals \<Rightarrow>
    ('p BackendSrvRequest \<Rightarrow> (('m, 'r) thrown, 'g option FetchResponse) result) \<Rightarrow>
    RulerDataSourceConfig \<Rightarrow> string \<Rightarrow> string \<Rightarrow>
    (('m, 'r) thrown, 'g option) result \<times> 'p BackendSrvRequest list" where
  "fetchRulerRulesGroupV2 ext fetch rulerConfig ns group' =
     rulerGetRequest ext fetch (namespaceGroup (rulerUrlBuilder ext rulerConfig) ns group')
       None None"

definition deleteRulerRulesGroup ::
  "externals \<Rightarrow> ('p BackendSrvRequest \<Rightarrow> ('e, 'a FetchResponse) result) \<Rightarrow>
    RulerDataSourceConfig \<Rightarrow> string \<Rightarrow> string \<Rightarrow>
    ('e, unit) result \<times> 'p BackendSrvRequest list" where
  "deleteRulerRulesGroup ext fetch rulerConfig ns groupName =
     await_void fetch
       \<lparr>req_method = Some ''DELETE'',
        req_url = namespaceGroup (rulerUrlBuilder ext rulerConfig) ns groupName,
        req_data = None, req_params = None,
        showErrorAlert = False, showSuccessAlert = False\<rparr>"

definition deleteNamespace ::
  "externals \<Rightarrow> ('p BackendSrvRequest \<Rightarrow> ('e, 'a FetchResponse) result) \<Rightarrow>
    RulerDataSourceConfig \<Rightarrow> string \<Rightarrow> ('e, unit) result \<times> 'p BackendSrvRequest list" where
  "deleteNamespace ext fetch rulerConfig ns =
     await_void fetch
       \<lparr>req_method = Some ''DELETE'', req_url = namespace (rulerUrlBuilder ext rulerConfig) ns,
        req_data = None, req_params = None,
        showErrorAlert = False, showSuccessAlert = False\<rparr>"


section \<open>Reading a URL back\<close>

text \<open>
  What the receiver of a URL reads in it, used to state what a URL carries.
  \<open>decodeURIComponent\<close> undoes one level of percent-encoding and fails (URIError) on a
  \<open>%\<close> that two hexadecimal digits do not follow.
\<close>

definition hex_value :: "char \<Rightarrow> nat option" where
  "hex_value c =
     (let n = (of_char c :: nat)
      in if 48 \<le> n \<and> n \<le> 57 then Some (n - 48)
         else if 65 \<le> n \<and> n \<le> 70 then Some (n - 55)
         else if 97 \<le> n \<and> n \<le> 102 then Some (n - 87)
         else None)"

fun decodeURIComponent :: "string \<Rightarrow> string option" where
  "decodeURIComponent [] = Some []"
| "decodeURIComponent (c # cs) =
     (if c = CHR ''%'' then
        (case cs of
           h # l # rest \<Rightarrow>
             (case (hex_value h, hex_value l) of
                (Some a, Some b) \<Rightarrow>
                  map_option ((#) (char_of (16 * a + b))) (decodeURIComponent rest)
              | _ \<Rightarrow> None)
         | _ \<Rightarrow> None)
      else map_option ((#) c) (decodeURIComponent cs))"

text \<open>
  The parser of \<open>application/x-www-form-urlencoded\<close> (WHATWG URL), which gives
  \<open>new URL(u).searchParams\<close>: the query is cut at every \<open>&\<close>, each non-empty piece at its
  first \<open>=\<close>, then \<open>+\<close> is read as a space and every well-formed \<open>%XX\<close> as its byte
  (a \<open>%\<close> that is not well formed stays).
\<close>

fun percent_decode :: "string \<Rightarrow> string" where
  "percent_decode [] = []"
| "percent_decode (c # cs) =
     (if c = CHR ''%'' then
        (case cs of
           h # l # rest \<Rightarrow>
             (case (hex_value h, hex_value l) of
                (Some a, Some b) \<Rightarrow> char_of (16 * a + b) # percent_decode rest
              | _ \<Rightarrow> c # percent_decode cs)
         | _ \<Rightarrow> c # percent_decode cs)
      else c # percent_decode cs)"

definition form_urldecode :: "string \<Rightarrow> string" where
  "form_urldecode s = percent_decode (map (\<lambda>c. if c = CHR ''+'' then CHR '' '' else c) s)"

fun split_on :: "char \<Rightarrow> string \<Rightarrow> string list" where
  "split_on d [] = [[]]"
| "split_on d (c # cs) =
     (if c = d then [] # split_on d cs
      else (case split_on d cs of [] \<Rightarrow> [[c]] | x # xs \<Rightarrow> (c # x) # xs))"

definition parse_pair :: "string \<Rightarrow> string \<times> string" where
  "parse_pair s =
     (form_urldecode (takeWhile (\<lambda>c. c \<noteq> CHR ''='') s),
      form_urldecode (drop 1 (dropWhile (\<lambda>c. c \<noteq> CHR ''='') s)))"

definition URLSearchParams_parse :: "string \<Rightarrow> URLSearchParams" where
  "URLSearchParams_parse q = map parse_pair (filter (\<lambda>s. s \<noteq> []) (split_on CHR ''&'' q))"

text \<open>The query of a URL without fragment: what follows its first \<open>?\<close>.\<close>

definition url_search :: "string \<Rightarrow> string" where
  "url_search u = drop 1 (dropWhile (\<lambda>c. c \<noteq> CHR ''?'') u)"

definition searchParams :: "string \<Rightarrow> URLSearchParams" where
  "searchParams u = URLSearchParams_parse (url_search u)"

text \<open>\<open>URLSearchParams.getAll(name)\<close>: the values of every pair of that name, in order.\<close>

definition getAll :: "string \<Rightarrow> URLSearchParams \<Rightarrow> string list" where
  "getAll name ps = map snd (filter (\<lambda>p. fst p = name) ps)"

text \<open>
  The values under which one output of a builder carries a parameter: for a URL, those
  of its query; for the result of \<open>rules\<close>, whose \<open>url\<close> is the bare base path, the entry of
  its \<open>params\<close> object, which holds a name at most once.
\<close>

fun output_values :: "builder_output \<Rightarrow> string \<Rightarrow> string list" where
  "output_values (RulesOutput r) name = (case params r name of None \<Rightarrow> [] | Some v \<Rightarrow> [v])"
| "output_values (UrlOutput u) name = getAll name (searchParams u)"


section \<open>Percent-encoding and decoding\<close>

lemma hex_digit_cases:
  "\<forall>k\<in>set [0..<16].
     hex_value (hex_digit k) = Some k \<and> is_alnum (hex_digit k) \<and> hex_digit k \<noteq> CHR ''+''"
  by code_simp

lemma hex_value_hex_digit: "k < 16 \<Longrightarrow> hex_value (hex_digit k) = Some k"
  using hex_digit_cases by simp

lemma is_alnum_hex_digit: "k < 16 \<Longrightarrow> is_alnum (hex_digit k)"
  using hex_digit_cases by simp

lemma of_char_div_16: "(of_char c :: nat) div 16 < 16"
proof -
  have "(of_char c :: nat) < 256" by simp
  then show ?thesis by (simp add: less_mult_imp_div_less)
qed

lemma char_of_nibbles: "char_of (16 * ((of_char c :: nat) div 16) + of_char c mod 16) = c"
  by simp

lemma not_alnum_special:
  "\<not> is_alnum CHR ''%''" "\<not> is_alnum CHR ''+''" "\<not> is_alnum CHR ''&''" "\<not> is_alnum CHR ''=''"
  "\<not> is_alnum CHR ''?''" "\<not> is_alnum CHR ''/''" "\<not> is_alnum CHR '' ''" "\<not> is_alnum CHR ''#''"
  by (simp_all add: is_alnum_def)

lemma decodeURIComponent_percent_byte:
  "decodeURIComponent (percent_byte c @ r) = map_option ((#) c) (decodeURIComponent r)"
  by (simp add: percent_byte_def hex_value_hex_digit of_char_div_16)

lemma decodeURIComponent_byte:
  "decodeURIComponent (encodeURIComponent_byte c @ r) = map_option ((#) c) (decodeURIComponent r)"
proof (cases "uri_unreserved c")
  case True
  then have "c \<noteq> CHR ''%''"
    using not_alnum_special(1) by (auto simp: uri_unreserved_def)
  with True show ?thesis by (simp add: encodeURIComponent_byte_def)
next
  case False
  then show ?thesis
    by (simp add: encodeURIComponent_byte_def decodeURIComponent_percent_byte)
qed

lemma decodeURIComponent_encodeURIComponent: "decodeURIComponent (encodeURIComponent s) = Some s"
  by (induction s) (simp_all add: encodeURIComponent_def decodeURIComponent_byte)


lemma percent_byte_chars:
  assumes "x \<in> set (percent_byte c)"
  shows "x = CHR ''%'' \<or> is_alnum x"
proof -
  have "(of_char c :: nat) mod 16 < 16" by simp
  then show ?thesis
    using assms of_char_div_16 [of c]
    by (auto simp: percent_byte_def is_alnum_hex_digit)
qed

lemma encodeURIComponent_byte_chars:
  assumes "x \<in> set (encodeURIComponent_byte c)"
  shows "is_alnum x \<or> x \<in> set ''-_.!~*'()%''"
  using assms percent_byte_chars [of x c]
  by (auto simp: encodeURIComponent_byte_def uri_unreserved_def split: if_splits)

lemma encodeURIComponent_chars:
  assumes "x \<in> set (encodeURIComponent s)"
  shows "is_alnum x \<or> x \<in> set ''-_.!~*'()%''"
  using assms encodeURIComponent_byte_chars
  by (auto simp: encodeURIComponent_def simp del: set_simps)

lemma encodeURIComponent_no_separator:
  "CHR ''/'' \<notin> set (encodeURIComponent s)"
  "CHR ''?'' \<notin> set (encodeURIComponent s)"
  "CHR '' '' \<notin> set (encodeURIComponent s)"
  "CHR ''#'' \<notin> set (encodeURIComponent s)"
  using encodeURIComponent_chars [of _ s] not_alnum_special by fastforce+

lemma form_urlencode_byte_chars:
  assumes "x \<in> set (form_urlencode_byte c)"
  shows "is_alnum x \<or> x \<in> set ''*-._+%''"
  using assms percent_byte_chars [of x c]
  by (auto simp: form_urlencode_byte_def split: if_splits)

lemma form_urlencode_chars:
  assumes "x \<in> set (form_urlencode s)"
  shows "is_alnum x \<or> x \<in> set ''*-._+%''"
  using assms form_urlencode_byte_chars
  by (auto simp: form_urlencode_def simp del: set_simps)

lemma form_urlencode_no_separator:
  "CHR ''&'' \<notin> set (form_urlencode s)"
  "CHR ''='' \<notin> set (form_urlencode s)"
  "CHR ''?'' \<notin> set (form_urlencode s)"
  "CHR ''#'' \<notin> set (form_urlencode s)"
  using form_urlencode_chars [of _ s] not_alnum_special by fastforce+

lemma percent_decode_percent_byte:
  "percent_decode (percent_byte c @ r) = c # percent_decode r"
  by (simp add: percent_byte_def hex_value_hex_digit of_char_div_16)

lemma plus_free_percent_byte:
  "map (\<lambda>x. if x = CHR ''+'' then CHR '' '' else x) (percent_byte c) = percent_byte c"
proof -
  have "(of_char c :: nat) mod 16 < 16" by simp
  then have "hex_digit (of_char c mod 16) \<noteq> CHR ''+''" "hex_digit (of_char c div 16) \<noteq> CHR ''+''"
    using hex_digit_cases of_char_div_16 [of c] by simp_all
  then show ?thesis by (simp add: percent_byte_def)
qed

lemma form_urldecode_byte:
  "percent_decode (map (\<lambda>x. if x = CHR ''+'' then CHR '' '' else x) (form_urlencode_byte c) @ r)
     = c # percent_decode r"
proof -
  consider "c = CHR '' ''" | "c \<noteq> CHR '' ''" "is_alnum c \<or> c \<in> set ''*-._''"
    | "c \<noteq> CHR '' ''" "\<not> (is_alnum c \<or> c \<in> set ''*-._'')"
    by blast
  then show ?thesis
  proof cases
    case 1
    then show ?thesis by (simp add: form_urlencode_byte_def)
  next
    case 2
    then have "c \<noteq> CHR ''+''" "c \<noteq> CHR ''%''"
      using not_alnum_special by auto
    with 2 show ?thesis by (simp add: form_urlencode_byte_def)
  next
    case 3
    then have "form_urlencode_byte c = percent_byte c"
      by (simp add: form_urlencode_byte_def)
    then show ?thesis
      by (simp add: plus_free_percent_byte percent_decode_percent_byte)
  qed
qed

lemma form_urldecode_form_urlencode: "form_urldecode (form_urlencode s) = s"
proof -
  have "percent_decode (map (\<lambda>x. if x = CHR ''+'' then CHR '' '' else x) (form_urlencode s)) = s"
  proof (induction s)
    case Nil
    then show ?case by (simp add: form_urlencode_def)
  next
    case (Cons c s)
    have "form_urlencode (c # s) = form_urlencode_byte c @ form_urlencode s"
      by (simp add: form_urlencode_def)
    then show ?case
      using Cons.IH form_urldecode_byte [of c] by simp
  qed
  then show ?thesis by (simp add: form_urldecode_def)
qed

text \<open>The query of a URL, read back, is the list of pairs that was serialized.\<close>

lemma split_on_no_delimiter: "d \<notin> set x \<Longrightarrow> split_on d x = [x]"
  by (induction x) auto

lemma split_on_append:
  "d \<notin> set x \<Longrightarrow> split_on d (x @ d # r) = x # split_on d r"
  by (induction x) auto

lemma split_on_join:
  assumes "xs \<noteq> []" and "\<forall>x\<in>set xs. d \<notin> set x"
  shows "split_on d (join [d] xs) = xs"
  using assms
proof (induction "[d]" xs rule: join.induct)
  case 1
  then show ?case by simp
next
  case (2 x)
  then show ?case by (simp add: split_on_no_delimiter)
next
  case (3 x y ys)
  then show ?case by (simp add: split_on_append)
qed

lemma parse_pair_serialize_pair: "parse_pair (serialize_pair p) = p"
proof -
  have no_eq: "\<And>x. x \<in> set (form_urlencode (fst p)) \<Longrightarrow> x \<noteq> CHR ''=''"
    using form_urlencode_no_separator(2) by blast
  have t: "takeWhile (\<lambda>c. c \<noteq> CHR ''='') (form_urlencode (fst p) @ CHR ''='' # form_urlencode (snd p))
           = form_urlencode (fst p)"
    using no_eq by (simp add: takeWhile_tail)
  have d: "dropWhile (\<lambda>c. c \<noteq> CHR ''='') (form_urlencode (fst p) @ CHR ''='' # form_urlencode (snd p))
           = CHR ''='' # form_urlencode (snd p)"
    using no_eq by simp
  show ?thesis
    by (simp add: parse_pair_def serialize_pair_def t d form_urldecode_form_urlencode)
qed

lemma serialize_pair_component:
  "serialize_pair p \<noteq> []" "CHR ''&'' \<notin> set (serialize_pair p)"
  using form_urlencode_no_separator(1) by (simp_all add: serialize_pair_def)

lemma URLSearchParams_parse_toString:
  "URLSearchParams_parse (URLSearchParams_toString ps) = ps"
proof (cases ps)
  case Nil
  then show ?thesis by (simp add: URLSearchParams_parse_def URLSearchParams_toString_def)
next
  case (Cons p ps')
  let ?xs = "map serialize_pair ps"
  have "?xs \<noteq> []" using Cons by simp
  moreover have "\<forall>x\<in>set ?xs. CHR ''&'' \<notin> set x"
    using serialize_pair_component(2) by auto
  ultimately have "split_on CHR ''&'' (join ''&'' ?xs) = ?xs"
    by (rule split_on_join)
  moreover have "filter (\<lambda>s. s \<noteq> []) ?xs = ?xs"
    using serialize_pair_component(1) by (simp add: filter_id_conv)
  ultimately show ?thesis
    by (simp add: URLSearchParams_parse_def URLSearchParams_toString_def
        parse_pair_serialize_pair comp_def)
qed

lemma url_search_append:
  "CHR ''?'' \<notin> set path \<Longrightarrow> url_search (path @ ''?'' @ q) = q"
  by (induction path) (auto simp: url_search_def)

lemma searchParams_namespace:
  assumes "CHR ''?'' \<notin> set (basePath b)"
  shows "searchParams (namespace b ns) = rulerSearchParams b"
proof -
  have "CHR ''?'' \<notin> set (basePath b @ ''/'' @ encodeURIComponent ns)"
    using assms encodeURIComponent_no_separator(2) by simp
  then have "url_search ((basePath b @ ''/'' @ encodeURIComponent ns) @ ''?''
               @ URLSearchParams_toString (rulerSearchParams b))
             = URLSearchParams_toString (rulerSearchParams b)"
    by (rule url_search_append)
  then show ?thesis
    by (simp add: searchParams_def namespace_def URLSearchParams_parse_toString)
qed

lemma searchParams_namespaceGroup:
  assumes "CHR ''?'' \<notin> set (basePath b)"
  shows "searchParams (namespaceGroup b ns g) = rulerSearchParams b"
proof -
  have "CHR ''?'' \<notin> set (basePath b @ ''/'' @ encodeURIComponent ns @ ''/'' @ encodeURIComponent g)"
    using assms encodeURIComponent_no_separator(2) by simp
  then have "url_search ((basePath b @ ''/'' @ encodeURIComponent ns @ ''/'' @ encodeURIComponent g)
               @ ''?'' @ URLSearchParams_toString (rulerSearchParams b))
             = URLSearchParams_toString (rulerSearchParams b)"
    by (rule url_search_append)
  then show ?thesis
    by (simp add: searchParams_def namespaceGroup_def URLSearchParams_parse_toString)
qed


section \<open>The classification of a rejected read\<close>

lemma String_includes_iff: "String_includes s sub \<longleftrightarrow> (\<exists>a b. s = a @ sub @ b)"
proof (induction s)
  case Nil
  then show ?case by auto
next
  case (Cons c cs)
  show ?case
  proof
    assume "String_includes (c # cs) sub"
    then consider "prefix sub (c # cs)" | "String_includes cs sub" by auto
    then show "\<exists>a b. c # cs = a @ sub @ b"
    proof cases
      case 1
      then obtain b where "c # cs = sub @ b" by (auto simp: prefix_def)
      then have "c # cs = [] @ sub @ b" by simp
      then show ?thesis by blast
    next
      case 2
      with Cons.IH obtain a b where "cs = a @ sub @ b" by blast
      then have "c # cs = (c # a) @ sub @ b" by simp
      then show ?thesis by blast
    qed
  next
    assume "\<exists>a b. c # cs = a @ sub @ b"
    then obtain a b where ab: "c # cs = a @ sub @ b" by blast
    show "String_includes (c # cs) sub"
    proof (cases a)
      case Nil
      with ab have "prefix sub (c # cs)" by (simp add: prefix_def)
      then show ?thesis by simp
    next
      case (Cons x a')
      with ab have "cs = a' @ sub @ b" by simp
      with Cons.IH have "String_includes cs sub" by blast
      then show ?thesis by simp
    qed
  qed
qed

lemma isResponseError_Response:
  "Number_isFinite (status e) \<Longrightarrow> isResponseError (Response e) = Returned (Some e)"
  by simp

lemma Number_isFinite_Finite: "Number_isFinite (Some (Finite x))"
  by (simp add: Number_isFinite_def)

text \<open>
  C1: when the transport rejects with a response of status 404 whose message contains
  "group does not exist" or "no rule groups found", \<open>rulerGetRequest\<close> returns the \<open>empty\<close>
  value it was given and does not throw, although the response also satisfies
  \<open>isRulerNotSupported\<close>: \<open>isCortexErrorResponse\<close> is tested first.
\<close>

theorem C1_absent_resource_returns_empty:
  assumes rej: "fetch \<lparr>req_method = None, req_url = url', req_data = None, req_params = params',
                      showErrorAlert = False, showSuccessAlert = False\<rparr> = Threw (Response e)"
    and st: "status e = Some (Finite 404)"
    and msg: "message (data e) = Some m"
    and phrase: "String_includes m ''group does not exist'' \<or> String_includes m ''no rule groups found''"
  shows "fst (rulerGetRequest ext fetch url' empty' params') = Returned empty' \<and> isRulerNotSupported e"
proof -
  have narrowed: "isResponseError (Response e) = Returned (Some e)"
    using st by (simp add: Number_isFinite_def)
  have cortex: "isCortexErrorResponse e"
    using st msg phrase by (auto simp: isCortexErrorResponse_def optional_includes_def)
  have "rulerGetRequest_catch ext empty' (Response e) = Returned empty'"
    unfolding rulerGetRequest_catch_def narrowed using cortex by simp
  then have "fst (rulerGetRequest ext fetch url' empty' params') = Returned empty'"
    using rej by (simp add: rulerGetRequest_def)
  moreover have "isRulerNotSupported e"
    using st by (simp add: isRulerNotSupported_def)
  ultimately show ?thesis by simp
qed

theorem C1_absent_resource_returns_empty_witness:
  "fst (rulerGetRequest
         \<lparr>getDatasourceAPIId = (\<lambda>n. n), GRAFANA_RULES_SOURCE_NAME = ''grafana'',
          RULER_NOT_SUPPORTED_MSG = ''ruler not supported'', Number_toString = (\<lambda>x. ''1e+21'')\<rparr>
         (\<lambda>req :: unit BackendSrvRequest. Threw (Response
            \<lparr>status = Some (Finite 404),
             data = \<lparr>message = Some ''rule group does not exist'', error = None\<rparr>\<rparr>))
         ''/api/ruler/1/api/v1/rules/ns/g?'' (None :: nat option) None)
     = Returned None
   \<and> isRulerNotSupported
        \<lparr>status = Some (Finite 404),
         data = \<lparr>message = Some ''rule group does not exist'', error = None\<rparr>\<rparr>"
  by (rule C1_absent_resource_returns_empty [where m = "''rule group does not exist''"])
     simp_all

text \<open>A response is determined by its \<open>data.message\<close> and by what it is once the
  message, or the whole \<open>data\<close>, of another is put in.\<close>

lemma message_overwritten:
  assumes "message (data e') = Some m'"
    and "e'\<lparr>data := data e\<rparr> = e"
    and "(data e')\<lparr>message := message (data e)\<rparr> = data e"
  shows "e' = e\<lparr>data := (data e)\<lparr>message := Some m'\<rparr>\<rparr>"
proof -
  have "data e' = (data e')\<lparr>message := Some m'\<rparr>"
    using assms(1) by (cases "data e'") simp
  also have "\<dots> = ((data e')\<lparr>message := message (data e)\<rparr>)\<lparr>message := Some m'\<rparr>"
    by simp
  also have "\<dots> = (data e)\<lparr>message := Some m'\<rparr>"
    using assms(3) by simp
  finally have d: "data e' = (data e)\<lparr>message := Some m'\<rparr>" .
  have "e' = e'\<lparr>data := data e'\<rparr>" by simp
  also have "\<dots> = (e'\<lparr>data := data e\<rparr>)\<lparr>data := data e'\<rparr>" by simp
  also have "\<dots> = e\<lparr>data := data e'\<rparr>" using assms(2) by simp
  finally show ?thesis using d by simp
qed

text \<open>
  C2: when the transport rejects with a response of status 404 whose message contains
  neither absent-resource phrase, or of status 500 whose message contains "unexpected
  content type from upstream. expected YAML, got text/html", \<open>rulerGetRequest\<close> throws a
  response whose \<open>data.message\<close> is \<open>RULER_NOT_SUPPORTED_MSG\<close> and which is the original in
  everything else: putting the original message back gives the original \<open>data\<close>, and
  putting the original \<open>data\<close> back gives the original response.
\<close>

theorem C2_not_supported_sentinel:
  assumes rej: "fetch \<lparr>req_method = None, req_url = url', req_data = None, req_params = params',
                      showErrorAlert = False, showSuccessAlert = False\<rparr> = Threw (Response e)"
    and cls: "(status e = Some (Finite 404)
               \<and> \<not> optional_includes (message (data e)) ''group does not exist''
               \<and> \<not> optional_includes (message (data e)) ''no rule groups found'')
            \<or> (status e = Some (Finite 500)
               \<and> optional_includes (message (data e))
                    ''unexpected content type from upstream. expected YAML, got text/html'')"
  shows "\<exists>e'. fst (rulerGetRequest ext fetch url' empty' params') = Threw (Response e')
           \<and> message (data e') = Some (RULER_NOT_SUPPORTED_MSG ext)
           \<and> status e' = status e
           \<and> e'\<lparr>data := data e\<rparr> = e
           \<and> (data e')\<lparr>message := message (data e)\<rparr> = data e"
proof -
  define e' where "e' = e\<lparr>data := (data e)\<lparr>message := Some (RULER_NOT_SUPPORTED_MSG ext)\<rparr>\<rparr>"
  have fin: "Number_isFinite (status e)"
    using cls by (auto simp: Number_isFinite_def)
  have narrowed: "isResponseError (Response e) = Returned (Some e)"
    using fin by simp
  have not_cortex: "\<not> isCortexErrorResponse e"
    using cls by (auto simp: isCortexErrorResponse_def)
  have unsupported: "isRulerNotSupported e"
    using cls by (auto simp: isRulerNotSupported_def)
  have "rulerGetRequest_catch ext empty' (Response e) = Threw (Response e')"
    unfolding rulerGetRequest_catch_def narrowed e'_def using not_cortex unsupported by simp
  then have thrown: "fst (rulerGetRequest ext fetch url' empty' params') = Threw (Response e')"
    using rej by (simp add: rulerGetRequest_def)
  have "message (data e') = Some (RULER_NOT_SUPPORTED_MSG ext)"
    and "status e' = status e"
    and "e'\<lparr>data := data e\<rparr> = e"
    and "(data e')\<lparr>message := message (data e)\<rparr> = data e"
    by (simp_all add: e'_def)
  with thrown show ?thesis by blast
qed

theorem C2_not_supported_sentinel_witness:
  "fst (rulerGetRequest
          \<lparr>getDatasourceAPIId = (\<lambda>n. n), GRAFANA_RULES_SOURCE_NAME = ''grafana'',
           RULER_NOT_SUPPORTED_MSG = ''ruler not supported'', Number_toString = (\<lambda>x. ''1e+21'')\<rparr>
          (\<lambda>req :: unit BackendSrvRequest. Threw (Response
             \<lparr>status = Some (Finite 404),
              data = \<lparr>message = Some ''unrelated issue'', error = Some ''Not Found''\<rparr>\<rparr>))
          ''/api/ruler/1/api/v1/rules'' (Map.empty :: string \<rightharpoonup> nat list) None)
     = Threw (Response
         \<lparr>status = Some (Finite 404),
          data = \<lparr>message = Some ''ruler not supported'', error = Some ''Not Found''\<rparr>\<rparr>)
   \<and> fst (rulerGetRequest
          \<lparr>getDatasourceAPIId = (\<lambda>n. n), GRAFANA_RULES_SOURCE_NAME = ''grafana'',
           RULER_NOT_SUPPORTED_MSG = ''ruler not supported'', Number_toString = (\<lambda>x. ''1e+21'')\<rparr>
          (\<lambda>req :: unit BackendSrvRequest. Threw (Response
             \<lparr>status = Some (Finite 500),
              data = \<lparr>message = Some
                ''unexpected content type from upstream. expected YAML, got text/html'',
                error = None\<rparr>\<rparr>))
          ''/api/ruler/1/api/v1/rules'' (Map.empty :: string \<rightharpoonup> nat list) None)
     = Threw (Response
         \<lparr>status = Some (Finite 500),
          data = \<lparr>message = Some ''ruler not supported'', error = None\<rparr>\<rparr>)"
proof -
  let ?e = "\<lparr>status = Some (Finite 404),
             data = \<lparr>message = Some ''unrelated issue'', error = Some ''Not Found''\<rparr>\<rparr>"
  let ?h = "\<lparr>status = Some (Finite 500),
             data = \<lparr>message = Some
               ''unexpected content type from upstream. expected YAML, got text/html'',
               error = None\<rparr>\<rparr>"
  let ?ext = "\<lparr>getDatasourceAPIId = (\<lambda>n. n), GRAFANA_RULES_SOURCE_NAME = ''grafana'',
               RULER_NOT_SUPPORTED_MSG = ''ruler not supported'', Number_toString = (\<lambda>x. ''1e+21'')\<rparr>"
  let ?fetch = "\<lambda>e. (\<lambda>req :: unit BackendSrvRequest. Threw (Response e)
                   :: ((unit, unit) thrown, (string \<rightharpoonup> nat list) FetchResponse) result)"
  let ?req = "\<lparr>req_method = None, req_url = ''/api/ruler/1/api/v1/rules'', req_data = None,
               req_params = None, showErrorAlert = False, showSuccessAlert = False\<rparr>
                :: unit BackendSrvRequest"
  have rej: "?fetch ?e ?req = Threw (Response ?e)" "?fetch ?h ?req = Threw (Response ?h)"
    by simp_all
  have cls_e: "(status ?e = Some (Finite 404)
               \<and> \<not> optional_includes (message (data ?e)) ''group does not exist''
               \<and> \<not> optional_includes (message (data ?e)) ''no rule groups found'')
            \<or> (status ?e = Some (Finite 500)
               \<and> optional_includes (message (data ?e))
                    ''unexpected content type from upstream. expected YAML, got text/html'')"
    by (simp add: optional_includes_def)
  have cls_h: "(status ?h = Some (Finite 404)
               \<and> \<not> optional_includes (message (data ?h)) ''group does not exist''
               \<and> \<not> optional_includes (message (data ?h)) ''no rule groups found'')
            \<or> (status ?h = Some (Finite 500)
               \<and> optional_includes (message (data ?h))
                    ''unexpected content type from upstream. expected YAML, got text/html'')"
    by (simp add: optional_includes_def)
  from C2_not_supported_sentinel [of "?fetch ?e" _ _ ?e ?ext Map.empty, OF rej(1) cls_e]
  obtain e' where e':
    "fst (rulerGetRequest ?ext (?fetch ?e) ''/api/ruler/1/api/v1/rules'' Map.empty None)
       = Threw (Response e')"
    "message (data e') = Some (RULER_NOT_SUPPORTED_MSG ?ext)"
    "e'\<lparr>data := data ?e\<rparr> = ?e" "(data e')\<lparr>message := message (data ?e)\<rparr> = data ?e"
    by blast
  from C2_not_supported_sentinel [of "?fetch ?h" _ _ ?h ?ext Map.empty, OF rej(2) cls_h]
  obtain h' where h':
    "fst (rulerGetRequest ?ext (?fetch ?h) ''/api/ruler/1/api/v1/rules'' Map.empty None)
       = Threw (Response h')"
    "message (data h') = Some (RULER_NOT_SUPPORTED_MSG ?ext)"
    "h'\<lparr>data := data ?h\<rparr> = ?h" "(data h')\<lparr>message := message (data ?h)\<rparr> = data ?h"
    by blast
  have "e' = ?e\<lparr>data := (data ?e)\<lparr>message := Some (RULER_NOT_SUPPORTED_MSG ?ext)\<rparr>\<rparr>"
    using e'(2-4) by (rule message_overwritten)
  moreover have "h' = ?h\<lparr>data := (data ?h)\<lparr>message := Some (RULER_NOT_SUPPORTED_MSG ?ext)\<rparr>\<rparr>"
    using h'(2-4) by (rule message_overwritten)
  ultimately show ?thesis using e'(1) h'(1) by simp
qed

text \<open>
  Every rejection that is not \<open>undefined\<close> or \<open>null\<close> and that no rule classifies is
  thrown again as it is.
\<close>

lemma rulerGetRequest_catch_rethrows:
  assumes "isResponseError err = Returned None
           \<or> (\<exists>e. err = Response e \<and> \<not> isCortexErrorResponse e \<and> \<not> isRulerNotSupported e)"
  shows "rulerGetRequest_catch ext empty' err = Threw err"
  using assms
  by (cases "isResponseError err")
     (auto simp: rulerGetRequest_catch_def Let_def split: option.splits if_splits)

lemma isResponseError_None_iff:
  "isResponseError err = Returned None \<longleftrightarrow>
     (case err of
        Primitive (Nullish n) \<Rightarrow> False
      | Response e \<Rightarrow> \<not> Number_isFinite (status e)
      | _ \<Rightarrow> True)"
  by (cases err rule: isResponseError.cases) (simp_all add: Let_def)

lemma rethrown_unchanged:
  assumes rej: "fetch \<lparr>req_method = None, req_url = url', req_data = None, req_params = params',
                      showErrorAlert = False, showSuccessAlert = False\<rparr> = Threw err"
    and notnull: "\<forall>n. err \<noteq> Primitive (Nullish n)"
    and other: "\<forall>e. err = Response e \<and> Number_isFinite (status e) \<longrightarrow>
                  status e \<noteq> Some (Finite 404) \<and>
                  \<not> (status e = Some (Finite 500) \<and> optional_includes (message (data e))
                        ''unexpected content type from upstream. expected YAML, got text/html'')"
  shows "fst (rulerGetRequest ext fetch url' empty' params') = Threw err"
proof -
  have "rulerGetRequest_catch ext empty' err = Threw err"
  proof (cases "isResponseError err = Returned None")
    case True
    then show ?thesis by (simp add: rulerGetRequest_catch_rethrows)
  next
    case False
    with notnull obtain e where e: "err = Response e" "Number_isFinite (status e)"
      by (cases err rule: isResponseError.cases) (auto simp: Let_def split: if_splits)
    with other have "\<not> isCortexErrorResponse e" "\<not> isRulerNotSupported e"
      by (auto simp: isCortexErrorResponse_def isRulerNotSupported_def)
    with e show ?thesis by (simp add: rulerGetRequest_catch_rethrows)
  qed
  then show ?thesis using rej by (simp add: rulerGetRequest_def)
qed

text \<open>
  C3: a rejection without the shape of a response is to be thrown again unchanged. When
  the transport rejects with \<open>undefined\<close> or \<open>null\<close>, \<open>isResponseError\<close> reads \<open>.data\<close> of it
  inside the \<open>catch\<close> block, and \<open>rulerGetRequest\<close> throws the TypeError of that read in
  place of the rejection.
\<close>

theorem C3_nullish_rejection_raises_TypeError:
  "fst (rulerGetRequest ext (\<lambda>req. Threw (Primitive (Nullish Undefined))) url' empty' params')
     = Threw (ErrorObject TypeError)
   \<and> fst (rulerGetRequest ext (\<lambda>req. Threw (Primitive (Nullish Null))) url' empty' params')
     = Threw (ErrorObject TypeError)"
  by (simp add: rulerGetRequest_def rulerGetRequest_catch_def)



section \<open>Writes and deletes\<close>

text \<open>
  C9: \<open>setRulerRuleGroup\<close>, \<open>deleteRulerRulesGroup\<close> and \<open>deleteNamespace\<close> end with the very
  rejection of the transport, whatever it is: nothing classifies it, and a 404 does not
  become a return.
\<close>

theorem C9_writes_surface_rejections:
  "(fetch \<lparr>req_method = Some ''POST'', req_url = namespace (rulerUrlBuilder ext rulerConfig) ns,
           req_data = Some group', req_params = None,
           showErrorAlert = False, showSuccessAlert = False\<rparr> = Threw err
      \<longrightarrow> fst (setRulerRuleGroup ext fetch rulerConfig ns group') = Threw err)
   \<and> (fetch \<lparr>req_method = Some ''DELETE'',
           req_url = namespaceGroup (rulerUrlBuilder ext rulerConfig) ns groupName,
           req_data = None, req_params = None,
           showErrorAlert = False, showSuccessAlert = False\<rparr> = Threw err
      \<longrightarrow> fst (deleteRulerRulesGroup ext fetch rulerConfig ns groupName) = Threw err)
   \<and> (fetch \<lparr>req_method = Some ''DELETE'', req_url = namespace (rulerUrlBuilder ext rulerConfig) ns,
           req_data = None, req_params = None,
           showErrorAlert = False, showSuccessAlert = False\<rparr> = Threw err
      \<longrightarrow> fst (deleteNamespace ext fetch rulerConfig ns) = Threw err)"
  by (simp add: setRulerRuleGroup_def deleteRulerRulesGroup_def deleteNamespace_def await_void_def)

theorem C9_writes_surface_rejections_witness:
  "fst (setRulerRuleGroup
         \<lparr>getDatasourceAPIId = (\<lambda>n. n), GRAFANA_RULES_SOURCE_NAME = ''grafana'',
          RULER_NOT_SUPPORTED_MSG = ''ruler not supported'', Number_toString = (\<lambda>x. ''1e+21'')\<rparr>
         (\<lambda>req :: nat BackendSrvRequest. Threw (Response
            \<lparr>status = Some (Finite 404),
             data = \<lparr>message = Some ''group does not exist'', error = None\<rparr>\<rparr>)
           :: ((unit, unit) thrown, unit FetchResponse) result)
         \<lparr>dataSourceName = ''mimir'', apiVersion = ''config'', customRulerEnabled = False\<rparr>
         ''ns'' 7)
     = Threw (Response \<lparr>status = Some (Finite 404),
                        data = \<lparr>message = Some ''group does not exist'', error = None\<rparr>\<rparr>)
   \<and> fst (deleteRulerRulesGroup
         \<lparr>getDatasourceAPIId = (\<lambda>n. n), GRAFANA_RULES_SOURCE_NAME = ''grafana'',
          RULER_NOT_SUPPORTED_MSG = ''ruler not supported'', Number_toString = (\<lambda>x. ''1e+21'')\<rparr>
         (\<lambda>req :: nat BackendSrvRequest. Threw (Response
            \<lparr>status = Some (Finite 404),
             data = \<lparr>message = Some ''group does not exist'', error = None\<rparr>\<rparr>)
           :: ((unit, unit) thrown, unit FetchResponse) result)
         \<lparr>dataSourceName = ''mimir'', apiVersion = ''config'', customRulerEnabled = False\<rparr>
         ''ns'' ''g'')
     = Threw (Response \<lparr>status = Some (Finite 404),
                        data = \<lparr>message = Some ''group does not exist'', error = None\<rparr>\<rparr>)
   \<and> fst (deleteNamespace
         \<lparr>getDatasourceAPIId = (\<lambda>n. n), GRAFANA_RULES_SOURCE_NAME = ''grafana'',
          RULER_NOT_SUPPORTED_MSG = ''ruler not supported'', Number_toString = (\<lambda>x. ''1e+21'')\<rparr>
         (\<lambda>req :: nat BackendSrvRequest. Threw (Response
            \<lparr>status = Some (Finite 404),
             data = \<lparr>message = Some ''group does not exist'', error = None\<rparr>\<rparr>)
           :: ((unit, unit) thrown, unit FetchResponse) result)
         \<lparr>dataSourceName = ''mimir'', apiVersion = ''config'', customRulerEnabled = False\<rparr>
         ''ns'')
     = Threw (Response \<lparr>status = Some (Finite 404),
                        data = \<lparr>message = Some ''group does not exist'', error = None\<rparr>\<rparr>)"
proof -
  let ?e = "\<lparr>status = Some (Finite 404),
             data = \<lparr>message = Some ''group does not exist'', error = None\<rparr>\<rparr>"
  let ?fetch = "\<lambda>req :: nat BackendSrvRequest. Threw (Response ?e)
                  :: ((unit, unit) thrown, unit FetchResponse) result"
  show ?thesis
    using C9_writes_surface_rejections [of ?fetch _ _ _ 7 "Response ?e" "''g''"]
    by simp
qed



section \<open>The reads\<close>

lemma rulerGetRequest_catch_Error:
  assumes "rulerGetRequest_catch ext empty' err = Threw (ErrorObject (Error m))"
  shows "err = ErrorObject (Error m)"
  using assms
  by (cases err rule: isResponseError.cases)
     (auto simp: rulerGetRequest_catch_def Let_def split: if_splits)

lemma rulerGetRequest_requests:
  "snd (rulerGetRequest ext fetch url' empty' params') =
     [\<lparr>req_method = None, req_url = url', req_data = None, req_params = params',
       showErrorAlert = False, showSuccessAlert = False\<rparr>]"
  by (simp add: rulerGetRequest_def Let_def)

lemma rulerGetRequest_Error:
  assumes "fst (rulerGetRequest ext fetch url' empty' params') = Threw (ErrorObject (Error m))"
  shows "fetch \<lparr>req_method = None, req_url = url', req_data = None, req_params = params',
                showErrorAlert = False, showSuccessAlert = False\<rparr> = Threw (ErrorObject (Error m))"
  using assms
  by (auto simp: rulerGetRequest_def Let_def split: result.splits dest: rulerGetRequest_catch_Error)

text \<open>
  C4: with a filter whose \<open>dashboardUID\<close> is set (a non-empty string: the code tests its
  truthiness) and a data source that is not \<open>GRAFANA_RULES_SOURCE_NAME\<close>, \<open>fetchRulerRules\<close>
  throws its Error and hands no request to the transport, whatever the transport is.
  With no filter, an empty \<open>dashboardUID\<close> or the built-in source, it hands the transport
  exactly one request, and it ends with an Error only if the transport itself rejected
  with that Error.
\<close>

theorem C4_dashboard_filter_guard:
  "(filter' = Some f \<and> dashboardUID f \<noteq> []
      \<and> dataSourceName rulerConfig \<noteq> GRAFANA_RULES_SOURCE_NAME ext
    \<longrightarrow> fetchRulerRules ext fetch rulerConfig filter'
        = (Threw (ErrorObject
             (Error ''Filtering by dashboard UID is not supported for cloud rules sources.'')),
           []))
   \<and> (filter' = None \<or> (\<exists>g. filter' = Some g \<and> dashboardUID g = [])
        \<or> dataSourceName rulerConfig = GRAFANA_RULES_SOURCE_NAME ext
    \<longrightarrow> snd (fetchRulerRules ext fetch rulerConfig filter')
          = [\<lparr>req_method = None, req_url = basePath (rulerUrlBuilder ext rulerConfig),
              req_data = None,
              req_params = Some (params (fst (rules ext (rulerUrlBuilder ext rulerConfig) filter'))),
              showErrorAlert = False, showSuccessAlert = False\<rparr>]
        \<and> (\<forall>m. fst (fetchRulerRules ext fetch rulerConfig filter') = Threw (ErrorObject (Error m))
             \<longrightarrow> fetch \<lparr>req_method = None, req_url = basePath (rulerUrlBuilder ext rulerConfig),
                         req_data = None,
                         req_params =
                           Some (params (fst (rules ext (rulerUrlBuilder ext rulerConfig) filter'))),
                         showErrorAlert = False, showSuccessAlert = False\<rparr>
                  = Threw (ErrorObject (Error m))))"
proof (intro conjI impI)
  assume "filter' = Some f \<and> dashboardUID f \<noteq> []
      \<and> dataSourceName rulerConfig \<noteq> GRAFANA_RULES_SOURCE_NAME ext"
  then show "fetchRulerRules ext fetch rulerConfig filter'
        = (Threw (ErrorObject
             (Error ''Filtering by dashboard UID is not supported for cloud rules sources.'')),
           [])"
    by (simp add: fetchRulerRules_def)
next
  assume pass: "filter' = None \<or> (\<exists>g. filter' = Some g \<and> dashboardUID g = [])
        \<or> dataSourceName rulerConfig = GRAFANA_RULES_SOURCE_NAME ext"
  let ?b = "rulerUrlBuilder ext rulerConfig"
  let ?r = "fst (rules ext ?b filter')"
  have url_r: "url ?r = basePath ?b"
    by (simp add: rules_def Let_def)
  from pass have eq: "fetchRulerRules ext fetch rulerConfig filter'
      = rulerGetRequest ext fetch (url ?r) Map.empty (Some (params ?r))"
    by (auto simp: fetchRulerRules_def split_beta)
  show "snd (fetchRulerRules ext fetch rulerConfig filter')
          = [\<lparr>req_method = None, req_url = basePath ?b, req_data = None,
              req_params = Some (params ?r),
              showErrorAlert = False, showSuccessAlert = False\<rparr>]"
    unfolding eq by (simp add: rulerGetRequest_requests url_r)
  show "\<forall>m. fst (fetchRulerRules ext fetch rulerConfig filter') = Threw (ErrorObject (Error m))
             \<longrightarrow> fetch \<lparr>req_method = None, req_url = basePath ?b, req_data = None,
                         req_params = Some (params ?r),
                         showErrorAlert = False, showSuccessAlert = False\<rparr>
                  = Threw (ErrorObject (Error m))"
    unfolding eq using rulerGetRequest_Error [of ext fetch "url ?r" Map.empty "Some (params ?r)"]
    by (simp add: url_r)
qed

theorem C4_dashboard_filter_guard_witness:
  "fetchRulerRules
      \<lparr>getDatasourceAPIId = (\<lambda>n. n), GRAFANA_RULES_SOURCE_NAME = ''grafana'',
       RULER_NOT_SUPPORTED_MSG = ''ruler not supported'', Number_toString = (\<lambda>x. ''1e+21'')\<rparr>
      (\<lambda>req :: unit BackendSrvRequest.
         Returned \<lparr>status = Some (Finite 200), data = (Map.empty :: string \<rightharpoonup> nat list)\<rparr>
           :: ((unit, unit) thrown, (string \<rightharpoonup> nat list) FetchResponse) result)
      \<lparr>dataSourceName = ''mimir'', apiVersion = ''config'', customRulerEnabled = False\<rparr>
      (Some \<lparr>dashboardUID = ''abc'', panelId = None\<rparr>)
    = (Threw (ErrorObject
         (Error ''Filtering by dashboard UID is not supported for cloud rules sources.'')),
       [])
   \<and> snd (fetchRulerRules
      \<lparr>getDatasourceAPIId = (\<lambda>n. n), GRAFANA_RULES_SOURCE_NAME = ''grafana'',
       RULER_NOT_SUPPORTED_MSG = ''ruler not supported'', Number_toString = (\<lambda>x. ''1e+21'')\<rparr>
      (\<lambda>req :: unit BackendSrvRequest.
         Returned \<lparr>status = Some (Finite 200), data = (Map.empty :: string \<rightharpoonup> nat list)\<rparr>
           :: ((unit, unit) thrown, (string \<rightharpoonup> nat list) FetchResponse) result)
      \<lparr>dataSourceName = ''grafana'', apiVersion = ''legacy'', customRulerEnabled = False\<rparr>
      (Some \<lparr>dashboardUID = ''abc'', panelId = None\<rparr>))
    = [\<lparr>req_method = None, req_url = ''/api/ruler/grafana/api/v1/rules'', req_data = None,
        req_params = Some [''noProxy'' \<mapsto> ''true'', ''dashboard_uid'' \<mapsto> ''abc''],
        showErrorAlert = False, showSuccessAlert = False\<rparr>]
   \<and> fst (fetchRulerRules
      \<lparr>getDatasourceAPIId = (\<lambda>n. n), GRAFANA_RULES_SOURCE_NAME = ''grafana'',
       RULER_NOT_SUPPORTED_MSG = ''ruler not supported'', Number_toString = (\<lambda>x. ''1e+21'')\<rparr>
      (\<lambda>req :: unit BackendSrvRequest.
         Threw (ErrorObject (Error ''socket hang up''))
           :: ((unit, unit) thrown, (string \<rightharpoonup> nat list) FetchResponse) result)
      \<lparr>dataSourceName = ''mimir'', apiVersion = ''config'', customRulerEnabled = False\<rparr>
      None)
    = Threw (ErrorObject (Error ''socket hang up''))"
proof -
  let ?ext = "\<lparr>getDatasourceAPIId = (\<lambda>n. n), GRAFANA_RULES_SOURCE_NAME = ''grafana'',
       RULER_NOT_SUPPORTED_MSG = ''ruler not supported'', Number_toString = (\<lambda>x. ''1e+21'')\<rparr>"
  let ?fetch = "\<lambda>req :: unit BackendSrvRequest.
         Returned \<lparr>status = Some (Finite 200), data = (Map.empty :: string \<rightharpoonup> nat list)\<rparr>
           :: ((unit, unit) thrown, (string \<rightharpoonup> nat list) FetchResponse) result"
  let ?down = "\<lambda>req :: unit BackendSrvRequest.
         Threw (ErrorObject (Error ''socket hang up''))
           :: ((unit, unit) thrown, (string \<rightharpoonup> nat list) FetchResponse) result"
  let ?f = "\<lparr>dashboardUID = ''abc'', panelId = None\<rparr>"
  let ?mimir = "\<lparr>dataSourceName = ''mimir'', apiVersion = ''config'', customRulerEnabled = False\<rparr>"
  let ?req = "\<lparr>req_method = None, req_url = basePath (rulerUrlBuilder ?ext ?mimir),
                req_data = None,
                req_params = Some (params (fst (rules ?ext (rulerUrlBuilder ?ext ?mimir) None))),
                showErrorAlert = False, showSuccessAlert = False\<rparr> :: unit BackendSrvRequest"
  have guard: "fetchRulerRules ?ext ?fetch ?mimir (Some ?f)
      = (Threw (ErrorObject
           (Error ''Filtering by dashboard UID is not supported for cloud rules sources.'')),
         [])"
    using C4_dashboard_filter_guard [of "Some ?f" ?f ?mimir ?ext ?fetch] by simp
  have one: "snd (fetchRulerRules ?ext ?fetch
        \<lparr>dataSourceName = ''grafana'', apiVersion = ''legacy'', customRulerEnabled = False\<rparr>
        (Some ?f))
      = [\<lparr>req_method = None, req_url = ''/api/ruler/grafana/api/v1/rules'', req_data = None,
          req_params = Some [''noProxy'' \<mapsto> ''true'', ''dashboard_uid'' \<mapsto> ''abc''],
          showErrorAlert = False, showSuccessAlert = False\<rparr>]"
    using C4_dashboard_filter_guard [of "Some ?f" ?f
            "\<lparr>dataSourceName = ''grafana'', apiVersion = ''legacy'', customRulerEnabled = False\<rparr>"
            ?ext ?fetch]
    by (simp add: rulerUrlBuilder_def rules_def Object_fromEntries_def Let_def)
  have thrown: "fst (fetchRulerRules ?ext ?down ?mimir None)
                  = Threw (ErrorObject (Error ''socket hang up''))"
    by (simp add: fetchRulerRules_def rulerGetRequest_def rulerGetRequest_catch_def
        rules_def Let_def)
  moreover have "?down ?req = Threw (ErrorObject (Error ''socket hang up''))"
    using C4_dashboard_filter_guard [of None ?f ?mimir ?ext ?down] thrown by blast
  ultimately show ?thesis
    using guard one by blast
qed

text \<open>
  What \<open>fetchRulerRulesNamespace\<close> returns when the transport resolves: the groups stored
  under the namespace when it is a key of the body; when it is not, the empty list,
  unless \<open>Object.prototype\<close> has a member of that name, which is then what is returned.
\<close>

lemma fetchRulerRulesNamespace_lookup:
  assumes ok: "fetch \<lparr>req_method = None, req_url = namespace (rulerUrlBuilder ext rulerConfig) ns,
                     req_data = None, req_params = None,
                     showErrorAlert = False, showSuccessAlert = False\<rparr> = Returned response"
  shows "(\<forall>groups. data response ns = Some groups
            \<longrightarrow> fst (fetchRulerRulesNamespace ext fetch rulerConfig ns) = Returned (Value groups))
       \<and> (data response ns = None \<and> ns \<notin> set Object_prototype_names
            \<longrightarrow> fst (fetchRulerRulesNamespace ext fetch rulerConfig ns) = Returned (Value []))
       \<and> (data response ns = None \<and> ns \<in> set Object_prototype_names
            \<longrightarrow> fst (fetchRulerRulesNamespace ext fetch rulerConfig ns)
                  = Returned (Object_prototype_member ns))"
  using ok
  by (simp add: fetchRulerRulesNamespace_def rulerGetRequest_def Let_def Object_get_def)

text \<open>
  C5: a namespace that is not a key of the body is to give the empty sequence. When the
  transport resolves with the body \<open>{}\<close> and the namespace is \<open>constructor\<close>, \<open>toString\<close> or
  \<open>__proto__\<close>, \<open>result[namespace]\<close> is the member that \<open>{}\<close> inherits from
  \<open>Object.prototype\<close>, which is truthy, and \<open>fetchRulerRulesNamespace\<close> returns that member
  in place of the empty list.
\<close>

theorem C5_inherited_member_returned:
  "fst (fetchRulerRulesNamespace ext
         (\<lambda>req. Returned \<lparr>status = Some (Finite 200), data = Map.empty\<rparr>)
         rulerConfig ''constructor'')
     = Returned (Object_prototype_member ''constructor'')
   \<and> fst (fetchRulerRulesNamespace ext
         (\<lambda>req. Returned \<lparr>status = Some (Finite 200), data = Map.empty\<rparr>)
         rulerConfig ''toString'')
     = Returned (Object_prototype_member ''toString'')
   \<and> fst (fetchRulerRulesNamespace ext
         (\<lambda>req. Returned \<lparr>status = Some (Finite 200), data = Map.empty\<rparr>)
         rulerConfig ''__proto__'')
     = Returned (Object_prototype_member ''__proto__'')"
  by (simp add: fetchRulerRulesNamespace_def rulerGetRequest_def Let_def Object_get_def
      Object_prototype_names_def)


section \<open>The URLs\<close>

text \<open>
  C6: the base path is \<open>/api/ruler/\<close>, the API id of the data source, then the path of the
  dialect; it ends in \<open>/config/v1/rules\<close> exactly when \<open>apiVersion\<close> is \<open>'config'\<close> and in
  \<open>/api/v1/rules\<close> exactly when it is anything else. It is the \<open>url\<close> that \<open>rules\<close> returns.
\<close>

theorem C6_base_path_dialect:
  "basePath (rulerUrlBuilder ext rulerConfig)
     = ''/api/ruler/'' @ getDatasourceAPIId ext (dataSourceName rulerConfig)
         @ (if apiVersion rulerConfig = ''config'' then ''/config/v1/rules'' else ''/api/v1/rules'')
   \<and> (suffix ''/config/v1/rules'' (basePath (rulerUrlBuilder ext rulerConfig))
        \<longleftrightarrow> apiVersion rulerConfig = ''config'')
   \<and> (suffix ''/api/v1/rules'' (basePath (rulerUrlBuilder ext rulerConfig))
        \<longleftrightarrow> apiVersion rulerConfig \<noteq> ''config'')
   \<and> url (fst (rules ext (rulerUrlBuilder ext rulerConfig) filter'))
        = basePath (rulerUrlBuilder ext rulerConfig)"
proof -
  let ?p = "''/api/ruler/'' @ getDatasourceAPIId ext (dataSourceName rulerConfig)"
  have a: "suffix ''/config/v1/rules'' (?p @ ''/config/v1/rules'')"
    and b: "suffix ''/api/v1/rules'' (?p @ ''/api/v1/rules'')"
    by (rule suffixI, simp)+
  have c: "\<not> suffix ''/config/v1/rules'' (?p @ ''/api/v1/rules'')"
    and d: "\<not> suffix ''/api/v1/rules'' (?p @ ''/config/v1/rules'')"
    by (simp_all add: suffix_to_prefix)
  have base: "basePath (rulerUrlBuilder ext rulerConfig)
     = ?p @ (if apiVersion rulerConfig = ''config'' then ''/config/v1/rules'' else ''/api/v1/rules'')"
    by (simp add: rulerUrlBuilder_def Let_def)
  have "url (fst (rules ext (rulerUrlBuilder ext rulerConfig) filter'))
        = basePath (rulerUrlBuilder ext rulerConfig)"
    by (simp add: rules_def Let_def)
  with a b c d base show ?thesis by (simp del: append_assoc append.simps)
qed

theorem C6_base_path_dialect_witness:
  "basePath (rulerUrlBuilder
      \<lparr>getDatasourceAPIId = (\<lambda>n. n), GRAFANA_RULES_SOURCE_NAME = ''grafana'',
       RULER_NOT_SUPPORTED_MSG = ''ruler not supported'', Number_toString = (\<lambda>x. ''1e+21'')\<rparr>
      \<lparr>dataSourceName = ''mimir'', apiVersion = ''config'', customRulerEnabled = False\<rparr>)
     = ''/api/ruler/mimir/config/v1/rules''
   \<and> suffix ''/config/v1/rules'' (basePath (rulerUrlBuilder
      \<lparr>getDatasourceAPIId = (\<lambda>n. n), GRAFANA_RULES_SOURCE_NAME = ''grafana'',
       RULER_NOT_SUPPORTED_MSG = ''ruler not supported'', Number_toString = (\<lambda>x. ''1e+21'')\<rparr>
      \<lparr>dataSourceName = ''mimir'', apiVersion = ''config'', customRulerEnabled = False\<rparr>))
   \<and> basePath (rulerUrlBuilder
      \<lparr>getDatasourceAPIId = (\<lambda>n. n), GRAFANA_RULES_SOURCE_NAME = ''grafana'',
       RULER_NOT_SUPPORTED_MSG = ''ruler not supported'', Number_toString = (\<lambda>x. ''1e+21'')\<rparr>
      \<lparr>dataSourceName = ''loki'', apiVersion = ''legacy'', customRulerEnabled = False\<rparr>)
     = ''/api/ruler/loki/api/v1/rules''
   \<and> suffix ''/api/v1/rules'' (basePath (rulerUrlBuilder
      \<lparr>getDatasourceAPIId = (\<lambda>n. n), GRAFANA_RULES_SOURCE_NAME = ''grafana'',
       RULER_NOT_SUPPORTED_MSG = ''ruler not supported'', Number_toString = (\<lambda>x. ''1e+21'')\<rparr>
      \<lparr>dataSourceName = ''loki'', apiVersion = ''legacy'', customRulerEnabled = False\<rparr>))"
  using C6_base_path_dialect
          [of "\<lparr>getDatasourceAPIId = (\<lambda>n. n), GRAFANA_RULES_SOURCE_NAME = ''grafana'',
                RULER_NOT_SUPPORTED_MSG = ''ruler not supported'', Number_toString = (\<lambda>x. ''1e+21'')\<rparr>"
              "\<lparr>dataSourceName = ''mimir'', apiVersion = ''config'', customRulerEnabled = False\<rparr>"
              None]
        C6_base_path_dialect
          [of "\<lparr>getDatasourceAPIId = (\<lambda>n. n), GRAFANA_RULES_SOURCE_NAME = ''grafana'',
                RULER_NOT_SUPPORTED_MSG = ''ruler not supported'', Number_toString = (\<lambda>x. ''1e+21'')\<rparr>"
              "\<lparr>dataSourceName = ''loki'', apiVersion = ''legacy'', customRulerEnabled = False\<rparr>"
              None]
  by (simp add: suffix_to_prefix rulerUrlBuilder_def Let_def)

text \<open>What \<open>set\<close> does to the values of a name.\<close>

lemma getAll_filter_other:
  "k \<noteq> name \<Longrightarrow> getAll k (filter (\<lambda>p. fst p \<noteq> name) ps) = getAll k ps"
  by (induction ps) (auto simp: getAll_def)

lemma getAll_filter_same: "getAll name (filter (\<lambda>p. fst p \<noteq> name) ps) = []"
  by (induction ps) (auto simp: getAll_def)

lemma getAll_set_same: "getAll name (URLSearchParams_set name v ps) = [v]"
proof (induction ps)
  case Nil
  then show ?case by (simp add: getAll_def)
next
  case (Cons p ps)
  obtain k w where p: "p = (k, w)" by (cases p)
  show ?case
  proof (cases "k = name")
    case True
    have "getAll name ((name, v) # filter (\<lambda>p. fst p \<noteq> name) ps)
            = v # getAll name (filter (\<lambda>p. fst p \<noteq> name) ps)"
      by (simp add: getAll_def)
    with True p show ?thesis by (simp add: getAll_filter_same)
  next
    case False
    have "getAll name ((k, w) # URLSearchParams_set name v ps)
            = getAll name (URLSearchParams_set name v ps)"
      using False by (simp add: getAll_def)
    with False p Cons.IH show ?thesis by simp
  qed
qed

lemma getAll_set_other:
  "k \<noteq> name \<Longrightarrow> getAll k (URLSearchParams_set name v ps) = getAll k ps"
proof (induction ps)
  case Nil
  then show ?case by (simp add: getAll_def)
next
  case (Cons p ps)
  obtain k' w where p: "p = (k', w)" by (cases p)
  show ?case
  proof (cases "k' = name")
    case True
    with Cons.prems p show ?thesis
      using getAll_filter_other [of k name ps] by (simp add: getAll_def)
  next
    case False
    with Cons p show ?thesis by (simp add: getAll_def)
  qed
qed

lemma set_fst_URLSearchParams_set:
  "fst ` set (URLSearchParams_set name v ps) = insert name (fst ` set ps)"
proof (induction ps)
  case Nil
  then show ?case by simp
next
  case (Cons p ps)
  obtain k w where p: "p = (k, w)" by (cases p)
  show ?case
  proof (cases "k = name")
    case True
    have "insert name (fst ` {x \<in> set ps. fst x \<noteq> name}) = insert name (fst ` set ps)"
      by force
    with True p show ?thesis by simp
  next
    case False
    with p Cons.IH show ?thesis by (simp add: insert_commute)
  qed
qed

lemma distinct_URLSearchParams_set:
  "distinct (map fst ps) \<Longrightarrow> distinct (map fst (URLSearchParams_set name v ps))"
proof (induction ps)
  case Nil
  then show ?case by simp
next
  case (Cons p ps)
  obtain k w where p: "p = (k, w)" by (cases p)
  show ?case
  proof (cases "k = name")
    case True
    have "name \<notin> fst ` set (filter (\<lambda>p. fst p \<noteq> name) ps)" by auto
    moreover have "distinct (map fst (filter (\<lambda>p. fst p \<noteq> name) ps))"
      using Cons.prems by (simp add: distinct_map_filter)
    ultimately show ?thesis using True p by simp
  next
    case False
    have "k \<notin> fst ` set (URLSearchParams_set name v ps)"
      using Cons.prems False p by (simp add: set_fst_URLSearchParams_set)
    with False p Cons show ?thesis by simp
  qed
qed

lemma fold_entries_lookup:
  "fold (\<lambda>(k, v) m. m(k \<mapsto> v)) ps m name
     = (case getAll name ps of [] \<Rightarrow> m name | v # vs \<Rightarrow> Some (last (v # vs)))"
proof (induction ps arbitrary: m)
  case Nil
  then show ?case by (simp add: getAll_def)
next
  case (Cons p ps)
  obtain k w where p: "p = (k, w)" by (cases p)
  show ?case
  proof (cases "k = name")
    case True
    then have "getAll name (p # ps) = w # getAll name ps"
      using p by (simp add: getAll_def)
    then show ?thesis
      using Cons.IH [of "m(k \<mapsto> w)"] p True by (simp split: list.splits)
  next
    case False
    then have "getAll name (p # ps) = getAll name ps"
      using p by (simp add: getAll_def)
    then show ?thesis
      using Cons.IH [of "m(k \<mapsto> w)"] p False by (simp split: list.splits)
  qed
qed

lemma getAll_distinct_short:
  "distinct (map fst ps) \<Longrightarrow> getAll name ps = [] \<or> (\<exists>v. getAll name ps = [v])"
proof (induction ps)
  case Nil
  then show ?case by (simp add: getAll_def)
next
  case (Cons p ps)
  show ?case
  proof (cases "fst p = name")
    case True
    with Cons.prems have "name \<notin> fst ` set ps" by auto
    then have "filter (\<lambda>p. fst p = name) ps = []"
      by (auto simp: filter_empty_conv)
    with True show ?thesis by (simp add: getAll_def)
  next
    case False
    with Cons show ?thesis by (simp add: getAll_def)
  qed
qed

lemma Object_fromEntries_values:
  assumes "distinct (map fst ps)"
  shows "(case Object_fromEntries ps name of None \<Rightarrow> [] | Some v \<Rightarrow> [v]) = getAll name ps"
  using getAll_distinct_short [OF assms, of name]
  by (auto simp: Object_fromEntries_def fold_entries_lookup)

text \<open>What \<open>rules\<close> does to the shared \<open>rulerSearchParams\<close>.\<close>

lemma basePath_rules: "basePath (snd (rules ext b filter')) = basePath b"
  by (simp add: rules_def Let_def)

lemma params_rules:
  "params (fst (rules ext b filter')) = Object_fromEntries (rulerSearchParams (snd (rules ext b filter')))"
  by (simp add: rules_def Let_def)

lemma rules_unchanged:
  "snd (rules ext b None) = b" "dashboardUID f = [] \<Longrightarrow> snd (rules ext b (Some f)) = b"
  by (simp_all add: rules_def)

lemma getAll_rules_other:
  assumes "name \<noteq> ''dashboard_uid''" and "name \<noteq> ''panel_id''"
  shows "getAll name (rulerSearchParams (snd (rules ext b filter'))) = getAll name (rulerSearchParams b)"
  using assms
  by (auto simp: rules_def Let_def getAll_set_other split: option.splits)

lemma getAll_rules_dashboard_uid:
  assumes "dashboardUID f \<noteq> []"
  shows "getAll ''dashboard_uid'' (rulerSearchParams (snd (rules ext b (Some f)))) = [dashboardUID f]"
  using assms
  by (auto simp: rules_def Let_def getAll_set_other getAll_set_same split: option.splits)

lemma getAll_rules_panel_id:
  assumes "dashboardUID f \<noteq> []" and "panelId f = Some n" and "truthy n"
  shows "getAll ''panel_id'' (rulerSearchParams (snd (rules ext b (Some f))))
           = [String_number ext n]"
  using assms by (simp add: rules_def Let_def getAll_set_same)

lemma getAll_rules_no_panel_id:
  assumes "\<not> sets_panel_id (Rules filter')"
  shows "getAll ''panel_id'' (rulerSearchParams (snd (rules ext b filter')))
           = getAll ''panel_id'' (rulerSearchParams b)"
proof (cases filter')
  case None
  then show ?thesis by (simp add: rules_unchanged)
next
  case (Some f)
  show ?thesis
  proof (cases "dashboardUID f = []")
    case True
    with Some show ?thesis by (simp add: rules_unchanged)
  next
    case False
    with assms Some have "panelId f = None \<or> (\<exists>n. panelId f = Some n \<and> \<not> truthy n)"
      by (auto split: option.splits)
    with False Some show ?thesis
      by (auto simp: rules_def Let_def getAll_set_other)
  qed
qed

lemma getAll_rules_kept:
  assumes "getAll name (rulerSearchParams b) \<noteq> []"
  shows "getAll name (rulerSearchParams (snd (rules ext b filter'))) \<noteq> []"
proof -
  have keep: "getAll name (URLSearchParams_set k v ps) \<noteq> []" if "getAll name ps \<noteq> []"
    for k v ps
    using that getAll_set_same [of name v ps] getAll_set_other [of name k v ps]
    by (cases "name = k") auto
  show ?thesis
    using assms by (auto simp: rules_def Let_def keep split: option.splits)
qed

text \<open>Every output of an instance carries exactly what \<open>rulerSearchParams\<close> holds when
  the call returns.\<close>

lemma invar_rulerUrlBuilder:
  assumes "CHR ''?'' \<notin> set (getDatasourceAPIId ext (dataSourceName rulerConfig))"
  shows "invar (rulerUrlBuilder ext rulerConfig)"
  using assms by (simp add: invar_def rulerUrlBuilder_def Let_def)

lemma invar_rules: "invar b \<Longrightarrow> invar (snd (rules ext b filter'))"
  by (auto simp: invar_def rules_def Let_def distinct_URLSearchParams_set split: option.splits)

lemma invar_invoke: "invar b \<Longrightarrow> invar (snd (invoke ext b c))"
  by (cases c) (simp_all add: invar_rules split_beta)

lemma invar_after: "invar b \<Longrightarrow> invar (after ext b cs)"
  by (induction cs arbitrary: b) (simp_all add: invar_invoke)

lemma after_snoc: "after ext b (cs @ [c]) = snd (invoke ext (after ext b cs) c)"
  by (induction cs arbitrary: b) simp_all

lemma run_output:
  assumes "out \<in> set (run ext b cs)"
  shows "\<exists>pre c post. cs = pre @ c # post \<and> out = fst (invoke ext (after ext b pre) c)"
  using assms
proof (induction cs arbitrary: b)
  case Nil
  then show ?case by simp
next
  case (Cons c cs)
  from Cons.prems consider "out = fst (invoke ext b c)" | "out \<in> set (run ext (snd (invoke ext b c)) cs)"
    by (auto simp: split_beta)
  then show ?case
  proof cases
    case 1
    then have "c # cs = [] @ c # cs \<and> out = fst (invoke ext (after ext b []) c)" by simp
    then show ?thesis by blast
  next
    case 2
    with Cons.IH obtain pre c' post where
      "cs = pre @ c' # post" "out = fst (invoke ext (after ext (snd (invoke ext b c)) pre) c')"
      by blast
    then have "c # cs = (c # pre) @ c' # post \<and> out = fst (invoke ext (after ext b (c # pre)) c')"
      by simp
    then show ?thesis by blast
  qed
qed

lemma output_values_invoke:
  assumes "invar b"
  shows "output_values (fst (invoke ext b c)) name = getAll name (rulerSearchParams (snd (invoke ext b c)))"
proof (cases c)
  case (Rules filter')
  have "distinct (map fst (rulerSearchParams (snd (rules ext b filter'))))"
    using invar_rules [OF assms] by (simp add: invar_def)
  then show ?thesis
    using Rules by (simp add: split_beta params_rules Object_fromEntries_values)
next
  case (Namespace ns)
  with assms show ?thesis by (simp add: invar_def searchParams_namespace)
next
  case (NamespaceGroup ns g)
  with assms show ?thesis by (simp add: invar_def searchParams_namespaceGroup)
qed

lemma run_output_values:
  assumes "invar b" and "out \<in> set (run ext b cs)"
  shows "\<exists>pre c post. cs = pre @ c # post
           \<and> output_values out name = getAll name (rulerSearchParams (after ext b (pre @ [c])))"
proof -
  from run_output [OF assms(2)] obtain pre c post where
    cs: "cs = pre @ c # post" and out: "out = fst (invoke ext (after ext b pre) c)"
    by blast
  have "output_values out name = getAll name (rulerSearchParams (after ext b (pre @ [c])))"
    unfolding out after_snoc using invar_after [OF assms(1)] by (rule output_values_invoke)
  with cs show ?thesis by blast
qed

lemma getAll_invoke_other:
  assumes "name \<noteq> ''dashboard_uid''" and "name \<noteq> ''panel_id''"
  shows "getAll name (rulerSearchParams (snd (invoke ext b c))) = getAll name (rulerSearchParams b)"
  using assms by (cases c) (simp_all add: split_beta getAll_rules_other)

lemma getAll_after_other:
  assumes "name \<noteq> ''dashboard_uid''" and "name \<noteq> ''panel_id''"
  shows "getAll name (rulerSearchParams (after ext b cs)) = getAll name (rulerSearchParams b)"
  using assms by (induction cs arbitrary: b) (simp_all add: getAll_invoke_other)

lemma getAll_after_kept:
  assumes "getAll name (rulerSearchParams b) \<noteq> []"
  shows "getAll name (rulerSearchParams (after ext b cs)) \<noteq> []"
  using assms
proof (induction cs arbitrary: b)
  case Nil
  then show ?case by simp
next
  case (Cons c cs)
  have "getAll name (rulerSearchParams (snd (invoke ext b c))) \<noteq> []"
    using Cons.prems by (cases c) (simp_all add: split_beta getAll_rules_kept)
  then show ?case using Cons.IH by simp
qed

lemma getAll_after_no_panel_id:
  assumes "\<forall>c\<in>set cs. \<not> sets_panel_id c"
  shows "getAll ''panel_id'' (rulerSearchParams (after ext b cs)) = getAll ''panel_id'' (rulerSearchParams b)"
  using assms
proof (induction cs arbitrary: b)
  case Nil
  then show ?case by simp
next
  case (Cons c cs)
  then have "\<not> sets_panel_id c" by simp
  then have "getAll ''panel_id'' (rulerSearchParams (snd (invoke ext b c)))
               = getAll ''panel_id'' (rulerSearchParams b)"
    by (cases c) (simp_all add: split_beta getAll_rules_no_panel_id)
  with Cons show ?case by simp
qed

lemma getAll_rulerUrlBuilder:
  "getAll ''source'' (rulerSearchParams (rulerUrlBuilder ext rulerConfig))
     = (if customRulerEnabled rulerConfig then [''ruler''] else [])"
  "getAll ''noProxy'' (rulerSearchParams (rulerUrlBuilder ext rulerConfig))
     = (if apiVersion rulerConfig = ''legacy'' then [''true''] else [])"
  "getAll ''panel_id'' (rulerSearchParams (rulerUrlBuilder ext rulerConfig)) = []"
  "getAll ''dashboard_uid'' (rulerSearchParams (rulerUrlBuilder ext rulerConfig)) = []"
  by (simp_all add: rulerUrlBuilder_def Let_def getAll_def)

text \<open>
  C7: whatever methods are called on one instance, in whatever order and number, each
  URL that \<open>namespace\<close> or \<open>namespaceGroup\<close> returns and each \<open>params\<close> object that \<open>rules\<close>
  returns carries \<open>source\<close> exactly once, with the value \<open>ruler\<close>, when
  \<open>customRulerEnabled\<close> is set (and not at all otherwise), and carries \<open>noProxy\<close> exactly
  once, with the value \<open>true\<close>, when \<open>apiVersion\<close> is \<open>'legacy'\<close> (and not at all otherwise).
  The API id of the data source is a path segment: it has no \<open>?\<close>.
\<close>

theorem C7_source_and_noProxy_once:
  assumes id: "CHR ''?'' \<notin> set (getDatasourceAPIId ext (dataSourceName rulerConfig))"
    and out: "out \<in> set (run ext (rulerUrlBuilder ext rulerConfig) calls)"
  shows "output_values out ''source'' = (if customRulerEnabled rulerConfig then [''ruler''] else [])
       \<and> output_values out ''noProxy'' = (if apiVersion rulerConfig = ''legacy'' then [''true''] else [])"
proof -
  let ?b = "rulerUrlBuilder ext rulerConfig"
  have inv: "invar ?b" using id by (rule invar_rulerUrlBuilder)
  have fixed: "output_values out name = getAll name (rulerSearchParams ?b)"
    if "name \<noteq> ''dashboard_uid''" "name \<noteq> ''panel_id''" for name
    using run_output_values [OF inv out, of name] getAll_after_other [OF that] by auto
  have "output_values out ''source'' = getAll ''source'' (rulerSearchParams ?b)"
    by (rule fixed) simp_all
  moreover have "output_values out ''noProxy'' = getAll ''noProxy'' (rulerSearchParams ?b)"
    by (rule fixed) simp_all
  ultimately show ?thesis by (simp add: getAll_rulerUrlBuilder)
qed

text \<open>The definitions that evaluate a builder on concrete input.\<close>

lemmas eval_defs = rulerUrlBuilder_def rules_def namespace_def namespaceGroup_def Let_def
  encodeURIComponent_def encodeURIComponent_byte_def uri_unreserved_def is_alnum_def
  percent_byte_def hex_digit_def URLSearchParams_toString_def serialize_pair_def
  form_urlencode_def form_urlencode_byte_def Object_fromEntries_def
  String_number_def is_safe_integer_def decimal_def truthy_def

theorem C7_source_and_noProxy_once_witness:
  "CHR ''?'' \<notin> set ''mimir''
   \<and> UrlOutput ''/api/ruler/mimir/api/v1/rules/ns?source=ruler&noProxy=true&dashboard_uid=d%26source%3Dx''
       \<in> set (run
                     \<lparr>getDatasourceAPIId = (\<lambda>n. n), GRAFANA_RULES_SOURCE_NAME = ''grafana'',
                      RULER_NOT_SUPPORTED_MSG = ''ruler not supported'', Number_toString = (\<lambda>x. ''1e+21'')\<rparr>
                     (rulerUrlBuilder
                     \<lparr>getDatasourceAPIId = (\<lambda>n. n), GRAFANA_RULES_SOURCE_NAME = ''grafana'',
                      RULER_NOT_SUPPORTED_MSG = ''ruler not supported'', Number_toString = (\<lambda>x. ''1e+21'')\<rparr>
                     \<lparr>dataSourceName = ''mimir'', apiVersion = ''legacy'', customRulerEnabled = True\<rparr>)
                 [Rules (Some \<lparr>dashboardUID = ''d&source=x'', panelId = None\<rparr>), Namespace ''ns''])
   \<and> output_values
         (UrlOutput ''/api/ruler/mimir/api/v1/rules/ns?source=ruler&noProxy=true&dashboard_uid=d%26source%3Dx'')
         ''source'' = [''ruler'']
   \<and> output_values
         (UrlOutput ''/api/ruler/mimir/api/v1/rules/ns?source=ruler&noProxy=true&dashboard_uid=d%26source%3Dx'')
         ''noProxy'' = [''true'']"
proof -
  let ?ext = "\<lparr>getDatasourceAPIId = (\<lambda>n. n), GRAFANA_RULES_SOURCE_NAME = ''grafana'',
                RULER_NOT_SUPPORTED_MSG = ''ruler not supported'', Number_toString = (\<lambda>x. ''1e+21'')\<rparr>"
  let ?cfg = "\<lparr>dataSourceName = ''mimir'', apiVersion = ''legacy'', customRulerEnabled = True\<rparr>"
  let ?u = "''/api/ruler/mimir/api/v1/rules/ns?source=ruler&noProxy=true&dashboard_uid=d%26source%3Dx''"
  have id: "CHR ''?'' \<notin> set (getDatasourceAPIId ?ext (dataSourceName ?cfg))"
    by simp
  have out: "UrlOutput ?u
       \<in> set (run ?ext (rulerUrlBuilder ?ext ?cfg)
                 [Rules (Some \<lparr>dashboardUID = ''d&source=x'', panelId = None\<rparr>), Namespace ''ns''])"
    by (simp add: eval_defs)
  show ?thesis
    using id out C7_source_and_noProxy_once [OF id out] by simp
qed

lemma split_on_two_segments:
  "split_on CHR ''/'' (encodeURIComponent ns @ ''/'' @ encodeURIComponent g)
     = [encodeURIComponent ns, encodeURIComponent g]"
  using encodeURIComponent_no_separator(1)
  by (simp add: split_on_append split_on_no_delimiter)

text \<open>
  C8: \<open>namespace\<close> and \<open>namespaceGroup\<close> return the base path, then one path segment per
  name, each the \<open>encodeURIComponent\<close> of its name, then \<open>?\<close> and the serialized
  \<open>rulerSearchParams\<close>. A segment is encoded once: decoding it once gives the name back.
  The segments are independent: an encoded name has no \<open>/\<close> (and no space), so the path
  after the base path splits at \<open>/\<close> into exactly the encoded names. When
  \<open>rulerSearchParams\<close> is empty, as it is on a new instance with neither \<open>customRulerEnabled\<close>
  nor the legacy dialect, the URL ends with the \<open>?\<close>.
\<close>

theorem C8_path_segments_encoded_once:
  "namespace b ns
     = basePath b @ ''/'' @ encodeURIComponent ns @ ''?''
         @ URLSearchParams_toString (rulerSearchParams b)
   \<and> namespaceGroup b ns g
     = basePath b @ ''/'' @ encodeURIComponent ns @ ''/'' @ encodeURIComponent g @ ''?''
         @ URLSearchParams_toString (rulerSearchParams b)
   \<and> split_on CHR ''/'' (encodeURIComponent ns @ ''/'' @ encodeURIComponent g)
     = [encodeURIComponent ns, encodeURIComponent g]
   \<and> decodeURIComponent (encodeURIComponent ns) = Some ns
   \<and> decodeURIComponent (encodeURIComponent g) = Some g
   \<and> CHR '' '' \<notin> set (encodeURIComponent ns) \<and> CHR '' '' \<notin> set (encodeURIComponent g)
   \<and> (rulerSearchParams b = []
        \<longrightarrow> namespace b ns = basePath b @ ''/'' @ encodeURIComponent ns @ ''?''
          \<and> namespaceGroup b ns g
              = basePath b @ ''/'' @ encodeURIComponent ns @ ''/'' @ encodeURIComponent g @ ''?'')
   \<and> (\<not> customRulerEnabled rulerConfig \<and> apiVersion rulerConfig \<noteq> ''legacy''
        \<longrightarrow> rulerSearchParams (rulerUrlBuilder ext rulerConfig) = [])"
proof -
  have "URLSearchParams_toString [] = []"
    by (simp add: URLSearchParams_toString_def)
  then have empty_query: "rulerSearchParams b = []
        \<longrightarrow> namespace b ns = basePath b @ ''/'' @ encodeURIComponent ns @ ''?''
          \<and> namespaceGroup b ns g
              = basePath b @ ''/'' @ encodeURIComponent ns @ ''/'' @ encodeURIComponent g @ ''?''"
    by (simp add: namespace_def namespaceGroup_def)
  have fresh: "\<not> customRulerEnabled rulerConfig \<and> apiVersion rulerConfig \<noteq> ''legacy''
        \<longrightarrow> rulerSearchParams (rulerUrlBuilder ext rulerConfig) = []"
    by (simp add: rulerUrlBuilder_def Let_def)
  show ?thesis
    using empty_query fresh split_on_two_segments [of ns g]
      decodeURIComponent_encodeURIComponent [of ns] decodeURIComponent_encodeURIComponent [of g]
      encodeURIComponent_no_separator(3) [of ns] encodeURIComponent_no_separator(3) [of g]
    by (simp add: namespace_def namespaceGroup_def)
qed

theorem C8_path_segments_encoded_once_witness:
  "namespace (rulerUrlBuilder
        \<lparr>getDatasourceAPIId = (\<lambda>n. n), GRAFANA_RULES_SOURCE_NAME = ''grafana'',
         RULER_NOT_SUPPORTED_MSG = ''ruler not supported'', Number_toString = (\<lambda>x. ''1e+21'')\<rparr>
        \<lparr>dataSourceName = ''mimir'', apiVersion = ''config'', customRulerEnabled = False\<rparr>)
      ''my ns/x''
     = ''/api/ruler/mimir/config/v1/rules/my%20ns%2Fx?''
   \<and> namespaceGroup (rulerUrlBuilder
        \<lparr>getDatasourceAPIId = (\<lambda>n. n), GRAFANA_RULES_SOURCE_NAME = ''grafana'',
         RULER_NOT_SUPPORTED_MSG = ''ruler not supported'', Number_toString = (\<lambda>x. ''1e+21'')\<rparr>
        \<lparr>dataSourceName = ''mimir'', apiVersion = ''config'', customRulerEnabled = False\<rparr>)
      ''my ns/x'' ''a b%''
     = ''/api/ruler/mimir/config/v1/rules/my%20ns%2Fx/a%20b%25?''
   \<and> decodeURIComponent ''my%20ns%2Fx'' = Some ''my ns/x''
   \<and> decodeURIComponent ''a%20b%25'' = Some ''a b%''
   \<and> split_on CHR ''/'' ''my%20ns%2Fx/a%20b%25'' = [''my%20ns%2Fx'', ''a%20b%25'']"
proof -
  let ?ext = "\<lparr>getDatasourceAPIId = (\<lambda>n. n), GRAFANA_RULES_SOURCE_NAME = ''grafana'',
                RULER_NOT_SUPPORTED_MSG = ''ruler not supported'', Number_toString = (\<lambda>x. ''1e+21'')\<rparr>"
  let ?cfg = "\<lparr>dataSourceName = ''mimir'', apiVersion = ''config'', customRulerEnabled = False\<rparr>"
  have enc: "encodeURIComponent ''my ns/x'' = ''my%20ns%2Fx''"
    "encodeURIComponent ''a b%'' = ''a%20b%25''"
    by (simp_all add: eval_defs)
  have base: "basePath (rulerUrlBuilder ?ext ?cfg) = ''/api/ruler/mimir/config/v1/rules''"
    by (simp add: eval_defs)
  note all = C8_path_segments_encoded_once
            [of "rulerUrlBuilder ?ext ?cfg" "''my ns/x''" "''a b%''" ?cfg ?ext]
  from all have fresh: "rulerSearchParams (rulerUrlBuilder ?ext ?cfg) = []"
    by simp
  from all fresh have urls:
    "namespace (rulerUrlBuilder ?ext ?cfg) ''my ns/x''
       = basePath (rulerUrlBuilder ?ext ?cfg) @ ''/'' @ encodeURIComponent ''my ns/x'' @ ''?''"
    "namespaceGroup (rulerUrlBuilder ?ext ?cfg) ''my ns/x'' ''a b%''
       = basePath (rulerUrlBuilder ?ext ?cfg) @ ''/'' @ encodeURIComponent ''my ns/x'' @ ''/''
           @ encodeURIComponent ''a b%'' @ ''?''"
    by blast+
  from all have segments:
    "split_on CHR ''/'' (encodeURIComponent ''my ns/x'' @ ''/'' @ encodeURIComponent ''a b%'')
       = [encodeURIComponent ''my ns/x'', encodeURIComponent ''a b%'']"
    "decodeURIComponent (encodeURIComponent ''my ns/x'') = Some ''my ns/x''"
    "decodeURIComponent (encodeURIComponent ''a b%'') = Some ''a b%''"
    by blast+
  show ?thesis
    using urls segments unfolding enc base by simp
qed

lemma getAll_invar_once:
  assumes "invar b" and "getAll name (rulerSearchParams b) \<noteq> []"
  shows "length (getAll name (rulerSearchParams b)) = 1"
  using assms getAll_distinct_short [of "rulerSearchParams b" name]
  by (auto simp: invar_def)

lemma run_carries_once:
  assumes inv: "invar b" and held: "getAll name (rulerSearchParams b) \<noteq> []"
    and out: "out \<in> set (run ext b cs)"
  shows "length (output_values out name) = 1"
proof -
  from run_output_values [OF inv out, of name] obtain pre c where
    eq: "output_values out name = getAll name (rulerSearchParams (after ext b (pre @ [c])))"
    by blast
  have "invar (after ext b (pre @ [c]))" using inv by (rule invar_after)
  moreover have "getAll name (rulerSearchParams (after ext b (pre @ [c]))) \<noteq> []"
    using held by (rule getAll_after_kept)
  ultimately show ?thesis unfolding eq by (rule getAll_invar_once)
qed

lemma run_no_panel_id:
  assumes inv: "invar b" and none: "getAll ''panel_id'' (rulerSearchParams b) = []"
    and calls: "\<forall>c\<in>set cs. \<not> sets_panel_id c"
    and out: "out \<in> set (run ext b cs)"
  shows "output_values out ''panel_id'' = []"
proof -
  from run_output_values [OF inv out, of "''panel_id''"] obtain pre c post where
    cs: "cs = pre @ c # post"
    and eq: "output_values out ''panel_id''
               = getAll ''panel_id'' (rulerSearchParams (after ext b (pre @ [c])))"
    by blast
  from calls cs have "\<forall>c'\<in>set (pre @ [c]). \<not> sets_panel_id c'" by simp
  then have "getAll ''panel_id'' (rulerSearchParams (after ext b (pre @ [c])))
               = getAll ''panel_id'' (rulerSearchParams b)"
    by (rule getAll_after_no_panel_id)
  with eq none show ?thesis by simp
qed

text \<open>
  C10: let \<open>b\<close> be an instance after any calls and \<open>b'\<close> the same instance after
  \<open>rules(f)\<close>. If \<open>f.dashboardUID\<close> is set, the URLs \<open>namespace\<close> and \<open>namespaceGroup\<close> then
  return carry \<open>dashboard_uid\<close> with that value, and \<open>panel_id\<close> with \<open>String(f.panelId)\<close>
  when \<open>f.panelId\<close> is a truthy number (not 0, not \<open>NaN\<close>); every output of every later
  call still carries each exactly once. \<open>String\<close> of a safe integer is its decimal digits.
  If \<open>f.dashboardUID\<close> is empty, or without a filter, \<open>rules\<close> leaves the instance as it
  was, whatever \<open>panelId\<close> is. If \<open>f.panelId\<close> is missing, 0 or \<open>NaN\<close>, \<open>rules(f)\<close> leaves the
  values of \<open>panel_id\<close> as they were. So on a new instance, as long as no call of \<open>rules\<close>
  has both a \<open>dashboardUID\<close> and a truthy \<open>panelId\<close>, no output carries \<open>panel_id\<close>.
\<close>

theorem C10_rules_filter_shared:
  fixes ext :: externals and rulerConfig :: RulerDataSourceConfig
    and pre :: "builder_call list" and f :: FetchRulerRulesFilter and b b' :: builder
  assumes id: "CHR ''?'' \<notin> set (getDatasourceAPIId ext (dataSourceName rulerConfig))"
  defines "b \<equiv> after ext (rulerUrlBuilder ext rulerConfig) pre"
    and "b' \<equiv> snd (rules ext (after ext (rulerUrlBuilder ext rulerConfig) pre) (Some f))"
  shows
    "(dashboardUID f \<noteq> [] \<longrightarrow>
        getAll ''dashboard_uid'' (searchParams (namespace b' ns)) = [dashboardUID f]
      \<and> getAll ''dashboard_uid'' (searchParams (namespaceGroup b' ns g)) = [dashboardUID f]
      \<and> (\<forall>out\<in>set (run ext b' post). length (output_values out ''dashboard_uid'') = 1)
      \<and> (\<forall>n. panelId f = Some n \<and> truthy n \<longrightarrow>
            getAll ''panel_id'' (searchParams (namespace b' ns)) = [String_number ext n]
          \<and> getAll ''panel_id'' (searchParams (namespaceGroup b' ns g)) = [String_number ext n]
          \<and> (\<forall>out\<in>set (run ext b' post). length (output_values out ''panel_id'') = 1)))
   \<and> (\<forall>k. \<bar>k\<bar> \<le> 9007199254740991 \<longrightarrow> String_number ext (Finite (of_int k)) = decimal k)
   \<and> (dashboardUID f = [] \<longrightarrow> b' = b)
   \<and> snd (rules ext b None) = b
   \<and> (panelId f = None \<or> panelId f = Some (Finite 0) \<or> panelId f = Some NaN \<longrightarrow>
        getAll ''panel_id'' (rulerSearchParams b') = getAll ''panel_id'' (rulerSearchParams b))
   \<and> ((\<forall>c\<in>set calls. \<not> sets_panel_id c) \<longrightarrow>
        (\<forall>out\<in>set (run ext (rulerUrlBuilder ext rulerConfig) calls).
           output_values out ''panel_id'' = []))"
proof -
  have inv0: "invar (rulerUrlBuilder ext rulerConfig)"
    using id by (rule invar_rulerUrlBuilder)
  then have inv: "invar b" unfolding b_def by (rule invar_after)
  then have inv': "invar b'" unfolding b'_def b_def by (rule invar_rules)
  then have q: "CHR ''?'' \<notin> set (basePath b')" by (simp add: invar_def)
  have b': "b' = snd (rules ext b (Some f))" by (simp add: b'_def b_def)
  have read: "searchParams (namespace b' ns) = rulerSearchParams b'"
    "searchParams (namespaceGroup b' ns g) = rulerSearchParams b'"
    using q by (simp_all add: searchParams_namespace searchParams_namespaceGroup)
  have uid: "getAll ''dashboard_uid'' (rulerSearchParams b') = [dashboardUID f]"
    if "dashboardUID f \<noteq> []"
    unfolding b' using that by (rule getAll_rules_dashboard_uid)
  have pid: "getAll ''panel_id'' (rulerSearchParams b') = [String_number ext n]"
    if "dashboardUID f \<noteq> []" "panelId f = Some n" "truthy n" for n
    unfolding b' using that by (rule getAll_rules_panel_id)
  have part1: "dashboardUID f \<noteq> [] \<longrightarrow>
        getAll ''dashboard_uid'' (searchParams (namespace b' ns)) = [dashboardUID f]
      \<and> getAll ''dashboard_uid'' (searchParams (namespaceGroup b' ns g)) = [dashboardUID f]
      \<and> (\<forall>out\<in>set (run ext b' post). length (output_values out ''dashboard_uid'') = 1)
      \<and> (\<forall>n. panelId f = Some n \<and> truthy n \<longrightarrow>
            getAll ''panel_id'' (searchParams (namespace b' ns)) = [String_number ext n]
          \<and> getAll ''panel_id'' (searchParams (namespaceGroup b' ns g)) = [String_number ext n]
          \<and> (\<forall>out\<in>set (run ext b' post). length (output_values out ''panel_id'') = 1))"
  proof (intro impI conjI allI ballI)
    assume set: "dashboardUID f \<noteq> []"
    show "getAll ''dashboard_uid'' (searchParams (namespace b' ns)) = [dashboardUID f]"
      and "getAll ''dashboard_uid'' (searchParams (namespaceGroup b' ns g)) = [dashboardUID f]"
      using uid [OF set] by (simp_all add: read)
    show "length (output_values out ''dashboard_uid'') = 1" if "out \<in> set (run ext b' post)" for out
      using inv' _ that by (rule run_carries_once) (simp add: uid [OF set])
    fix n
    assume "panelId f = Some n \<and> truthy n"
    then have p: "getAll ''panel_id'' (rulerSearchParams b') = [String_number ext n]"
      using pid [OF set] by blast
    show "getAll ''panel_id'' (searchParams (namespace b' ns)) = [String_number ext n]"
      and "getAll ''panel_id'' (searchParams (namespaceGroup b' ns g)) = [String_number ext n]"
      using p by (simp_all add: read)
    show "length (output_values out ''panel_id'') = 1" if "out \<in> set (run ext b' post)" for out
      using inv' _ that by (rule run_carries_once) (simp add: p)
  qed
  have safe: "\<forall>k. \<bar>k\<bar> \<le> 9007199254740991 \<longrightarrow> String_number ext (Finite (of_int k)) = decimal k"
    by (simp add: String_number_def is_safe_integer_def)
  have part2: "dashboardUID f = [] \<longrightarrow> b' = b" "snd (rules ext b None) = b"
    by (simp_all add: b' rules_unchanged)
  have part3: "panelId f = None \<or> panelId f = Some (Finite 0) \<or> panelId f = Some NaN \<longrightarrow>
        getAll ''panel_id'' (rulerSearchParams b') = getAll ''panel_id'' (rulerSearchParams b)"
  proof
    assume "panelId f = None \<or> panelId f = Some (Finite 0) \<or> panelId f = Some NaN"
    then have "\<not> sets_panel_id (Rules (Some f))" by (auto simp: truthy_def)
    then show "getAll ''panel_id'' (rulerSearchParams b') = getAll ''panel_id'' (rulerSearchParams b)"
      unfolding b' by (rule getAll_rules_no_panel_id)
  qed
  have part4: "(\<forall>c\<in>set calls. \<not> sets_panel_id c) \<longrightarrow>
        (\<forall>out\<in>set (run ext (rulerUrlBuilder ext rulerConfig) calls).
           output_values out ''panel_id'' = [])"
    using run_no_panel_id [OF inv0 getAll_rulerUrlBuilder(3)] by blast
  from part1 safe part2 part3 part4 show ?thesis by blast
qed

theorem C10_rules_filter_shared_witness:
  "CHR ''?'' \<notin> set ''grafana''
   \<and> namespace (snd (rules
          \<lparr>getDatasourceAPIId = (\<lambda>n. n), GRAFANA_RULES_SOURCE_NAME = ''grafana'',
           RULER_NOT_SUPPORTED_MSG = ''ruler not supported'', Number_toString = (\<lambda>x. ''1e+21'')\<rparr>
          (rulerUrlBuilder
            \<lparr>getDatasourceAPIId = (\<lambda>n. n), GRAFANA_RULES_SOURCE_NAME = ''grafana'',
             RULER_NOT_SUPPORTED_MSG = ''ruler not supported'', Number_toString = (\<lambda>x. ''1e+21'')\<rparr>
            \<lparr>dataSourceName = ''grafana'', apiVersion = ''config'', customRulerEnabled = False\<rparr>)
          (Some \<lparr>dashboardUID = ''abc'', panelId = Some (Finite 12)\<rparr>))) ''ns''
     = ''/api/ruler/grafana/config/v1/rules/ns?dashboard_uid=abc&panel_id=12''
   \<and> getAll ''dashboard_uid''
        (searchParams ''/api/ruler/grafana/config/v1/rules/ns?dashboard_uid=abc&panel_id=12'')
     = [''abc'']
   \<and> getAll ''panel_id''
        (searchParams ''/api/ruler/grafana/config/v1/rules/ns?dashboard_uid=abc&panel_id=12'')
     = [''12'']
   \<and> UrlOutput ''/api/ruler/grafana/config/v1/rules/x?dashboard_uid=abc&panel_id=12''
       \<in> set (run
          \<lparr>getDatasourceAPIId = (\<lambda>n. n), GRAFANA_RULES_SOURCE_NAME = ''grafana'',
           RULER_NOT_SUPPORTED_MSG = ''ruler not supported'', Number_toString = (\<lambda>x. ''1e+21'')\<rparr>
          (snd (rules
            \<lparr>getDatasourceAPIId = (\<lambda>n. n), GRAFANA_RULES_SOURCE_NAME = ''grafana'',
             RULER_NOT_SUPPORTED_MSG = ''ruler not supported'', Number_toString = (\<lambda>x. ''1e+21'')\<rparr>
            (rulerUrlBuilder
              \<lparr>getDatasourceAPIId = (\<lambda>n. n), GRAFANA_RULES_SOURCE_NAME = ''grafana'',
               RULER_NOT_SUPPORTED_MSG = ''ruler not supported'', Number_toString = (\<lambda>x. ''1e+21'')\<rparr>
              \<lparr>dataSourceName = ''grafana'', apiVersion = ''config'', customRulerEnabled = False\<rparr>)
            (Some \<lparr>dashboardUID = ''abc'', panelId = Some (Finite 12)\<rparr>)))
          [Rules None, Namespace ''x''])
   \<and> length (output_values
        (UrlOutput ''/api/ruler/grafana/config/v1/rules/x?dashboard_uid=abc&panel_id=12'')
        ''dashboard_uid'') = 1
   \<and> length (output_values
        (UrlOutput ''/api/ruler/grafana/config/v1/rules/x?dashboard_uid=abc&panel_id=12'')
        ''panel_id'') = 1
   \<and> String_number
        \<lparr>getDatasourceAPIId = (\<lambda>n. n), GRAFANA_RULES_SOURCE_NAME = ''grafana'',
         RULER_NOT_SUPPORTED_MSG = ''ruler not supported'', Number_toString = (\<lambda>x. ''1e+21'')\<rparr>
        (Finite 12) = ''12''
   \<and> snd (rules
          \<lparr>getDatasourceAPIId = (\<lambda>n. n), GRAFANA_RULES_SOURCE_NAME = ''grafana'',
           RULER_NOT_SUPPORTED_MSG = ''ruler not supported'', Number_toString = (\<lambda>x. ''1e+21'')\<rparr>
          (rulerUrlBuilder
            \<lparr>getDatasourceAPIId = (\<lambda>n. n), GRAFANA_RULES_SOURCE_NAME = ''grafana'',
             RULER_NOT_SUPPORTED_MSG = ''ruler not supported'', Number_toString = (\<lambda>x. ''1e+21'')\<rparr>
            \<lparr>dataSourceName = ''grafana'', apiVersion = ''config'', customRulerEnabled = False\<rparr>)
          (Some \<lparr>dashboardUID = [], panelId = Some (Finite 7)\<rparr>))
     = rulerUrlBuilder
          \<lparr>getDatasourceAPIId = (\<lambda>n. n), GRAFANA_RULES_SOURCE_NAME = ''grafana'',
           RULER_NOT_SUPPORTED_MSG = ''ruler not supported'', Number_toString = (\<lambda>x. ''1e+21'')\<rparr>
          \<lparr>dataSourceName = ''grafana'', apiVersion = ''config'', customRulerEnabled = False\<rparr>
   \<and> getAll ''panel_id'' (rulerSearchParams (snd (rules
          \<lparr>getDatasourceAPIId = (\<lambda>n. n), GRAFANA_RULES_SOURCE_NAME = ''grafana'',
           RULER_NOT_SUPPORTED_MSG = ''ruler not supported'', Number_toString = (\<lambda>x. ''1e+21'')\<rparr>
          (rulerUrlBuilder
            \<lparr>getDatasourceAPIId = (\<lambda>n. n), GRAFANA_RULES_SOURCE_NAME = ''grafana'',
             RULER_NOT_SUPPORTED_MSG = ''ruler not supported'', Number_toString = (\<lambda>x. ''1e+21'')\<rparr>
            \<lparr>dataSourceName = ''grafana'', apiVersion = ''config'', customRulerEnabled = False\<rparr>)
          (Some \<lparr>dashboardUID = ''abc'', panelId = Some (Finite 0)\<rparr>))))
     = []
   \<and> UrlOutput ''/api/ruler/grafana/config/v1/rules/ns?dashboard_uid=abc''
       \<in> set (run
          \<lparr>getDatasourceAPIId = (\<lambda>n. n), GRAFANA_RULES_SOURCE_NAME = ''grafana'',
           RULER_NOT_SUPPORTED_MSG = ''ruler not supported'', Number_toString = (\<lambda>x. ''1e+21'')\<rparr>
          (rulerUrlBuilder
            \<lparr>getDatasourceAPIId = (\<lambda>n. n), GRAFANA_RULES_SOURCE_NAME = ''grafana'',
             RULER_NOT_SUPPORTED_MSG = ''ruler not supported'', Number_toString = (\<lambda>x. ''1e+21'')\<rparr>
            \<lparr>dataSourceName = ''grafana'', apiVersion = ''config'', customRulerEnabled = False\<rparr>)
          [Rules (Some \<lparr>dashboardUID = ''abc'', panelId = Some (Finite 0)\<rparr>),
           Rules (Some \<lparr>dashboardUID = [], panelId = Some (Finite 7)\<rparr>), Namespace ''ns''])
   \<and> output_values (UrlOutput ''/api/ruler/grafana/config/v1/rules/ns?dashboard_uid=abc'')
        ''panel_id'' = []"
proof -
  let ?ext = "\<lparr>getDatasourceAPIId = (\<lambda>n. n), GRAFANA_RULES_SOURCE_NAME = ''grafana'',
                RULER_NOT_SUPPORTED_MSG = ''ruler not supported'',
                Number_toString = (\<lambda>x. ''1e+21'')\<rparr>"
  let ?cfg = "\<lparr>dataSourceName = ''grafana'', apiVersion = ''config'', customRulerEnabled = False\<rparr>"
  let ?f = "\<lparr>dashboardUID = ''abc'', panelId = Some (Finite 12)\<rparr>"
  let ?zero = "\<lparr>dashboardUID = ''abc'', panelId = Some (Finite 0)\<rparr>"
  let ?blank = "\<lparr>dashboardUID = [], panelId = Some (Finite 7)\<rparr>"
  let ?calls = "[Rules (Some ?zero), Rules (Some ?blank), Namespace ''ns'']"
  let ?post = "[Rules None, Namespace ''x'']"
  let ?b = "rulerUrlBuilder ?ext ?cfg"
  have id: "CHR ''?'' \<notin> set (getDatasourceAPIId ?ext (dataSourceName ?cfg))"
    by simp
  have twelve: "String_number ?ext (Finite 12) = ''12''"
    by (simp add: String_number_def is_safe_integer_def decimal_def digits.simps hex_digit_def)
  have url: "namespace (snd (rules ?ext ?b (Some ?f))) ''ns''
               = ''/api/ruler/grafana/config/v1/rules/ns?dashboard_uid=abc&panel_id=12''"
    by (simp add: eval_defs digits.simps)
  have later: "UrlOutput ''/api/ruler/grafana/config/v1/rules/x?dashboard_uid=abc&panel_id=12''
               \<in> set (run ?ext (snd (rules ?ext ?b (Some ?f))) ?post)"
    by (simp add: eval_defs digits.simps)
  have out: "UrlOutput ''/api/ruler/grafana/config/v1/rules/ns?dashboard_uid=abc''
               \<in> set (run ?ext ?b ?calls)"
    by (simp add: eval_defs)
  have quiet: "\<forall>c\<in>set ?calls. \<not> sets_panel_id c"
    by (simp add: truthy_def)
  have fresh: "getAll ''panel_id'' (rulerSearchParams ?b) = []"
    by (simp add: eval_defs getAll_def)
  note all = C10_rules_filter_shared
    [where ext = ?ext and rulerConfig = ?cfg and pre = "[]" and f = ?f and ns = "''ns''"
       and post = ?post and calls = ?calls, OF id]
  note all_zero = C10_rules_filter_shared
    [where ext = ?ext and rulerConfig = ?cfg and pre = "[]" and f = ?zero, OF id]
  note all_blank = C10_rules_filter_shared
    [where ext = ?ext and rulerConfig = ?cfg and pre = "[]" and f = ?blank, OF id]
  have t12: "truthy (Finite 12)" by (simp add: truthy_def)
  from all t12 have carried:
    "getAll ''dashboard_uid'' (searchParams (namespace (snd (rules ?ext ?b (Some ?f))) ''ns''))
       = [''abc'']"
    "getAll ''panel_id'' (searchParams (namespace (snd (rules ?ext ?b (Some ?f))) ''ns''))
       = [String_number ?ext (Finite 12)]"
    by simp_all
  from all t12 have
    "\<forall>out\<in>set (run ?ext (snd (rules ?ext ?b (Some ?f))) ?post).
       length (output_values out ''dashboard_uid'') = 1"
    "\<forall>out\<in>set (run ?ext (snd (rules ?ext ?b (Some ?f))) ?post).
       length (output_values out ''panel_id'') = 1"
    by simp_all
  with later have kept:
    "length (output_values
        (UrlOutput ''/api/ruler/grafana/config/v1/rules/x?dashboard_uid=abc&panel_id=12'')
        ''dashboard_uid'') = 1"
    "length (output_values
        (UrlOutput ''/api/ruler/grafana/config/v1/rules/x?dashboard_uid=abc&panel_id=12'')
        ''panel_id'') = 1"
    by blast+
  from all quiet out have never:
    "output_values (UrlOutput ''/api/ruler/grafana/config/v1/rules/ns?dashboard_uid=abc'')
       ''panel_id'' = []"
    by blast
  from all_blank have same: "snd (rules ?ext ?b (Some ?blank)) = ?b"
    by simp
  from all_zero have "getAll ''panel_id'' (rulerSearchParams (snd (rules ?ext ?b (Some ?zero))))
                    = getAll ''panel_id'' (rulerSearchParams ?b)"
    by simp
  with fresh have zero: "getAll ''panel_id'' (rulerSearchParams (snd (rules ?ext ?b (Some ?zero)))) = []"
    by simp
  show ?thesis
    using id url later out carried kept never same zero twelve unfolding url twelve by simp
qed

end
